theory Spec2Isabelle
  imports Complex_Main "HOL-Library.Word"
begin

section \<open>The WebUDP core (Wu.cpp): data model\<close>

text \<open>
  Machine integers are words of the width the source declares. A \<open>double\<close> (the
  clock, the tick length and the two countdowns \<open>ttl\<close> and \<open>nextHeartbeat\<close>) is read as
  the real number it denotes; the constants 8.0 and 4.0 and the comparison with 0.0 are
  exact on these. The subtraction of two doubles rounds its result: it is not written
  as the subtraction of reals but is the parameter \<open>double_sub\<close> of the model, so that
  every statement holds for the subtraction of the platform.
\<close>

type_synonym u8 = "8 word"
type_synonym u16 = "16 word"
type_synonym u32 = "32 word"
type_synonym bytes = "8 word list"

text \<open>A \<open>WuClient*\<close> is the index of a slot of the client pool.\<close>

type_synonym WuClientPtr = nat

definition kMaxClientTtl :: real where
  "kMaxClientTtl = 8.0"

definition heartbeatInterval :: real where
  "heartbeatInterval = 4.0"

datatype WuClientState =
    WuClient_Dead
  | WuClient_WaitingRemoval
  | WuClient_DTLSHandshake
  | WuClient_SCTPEstablished
  | WuClient_DataChannelOpen

text \<open>The enumerators' integer values, which the source compares with \<open><\<close>.\<close>

fun WuClientState_value :: "WuClientState \<Rightarrow> nat" where
  "WuClientState_value WuClient_Dead = 0"
| "WuClientState_value WuClient_WaitingRemoval = 1"
| "WuClientState_value WuClient_DTLSHandshake = 2"
| "WuClientState_value WuClient_SCTPEstablished = 3"
| "WuClientState_value WuClient_DataChannelOpen = 4"

record WuAddress =
  host :: u32
  port :: u16

record StunUserIdentifier =
  ident_bytes :: string
  ident_length :: nat

record SctpPacket =
  sourcePort :: u16
  destionationPort :: u16
  verificationTag :: u32

record SctpDataChunk =
  tsn :: u32
  streamId :: u16
  streamSeq :: u16
  protoId :: u32
  userData :: bytes

record SctpSackChunk =
  cumulativeTsnAck :: u32
  advRecvWindow :: u32
  numGapAckBlocks :: u16
  numDupTsn :: u16

record SctpInitChunk =
  initiateTag :: u32
  windowCredit :: u32
  numOutboundStreams :: u16
  numInboundStreams :: u16
  initialTsn :: u32

text \<open>
  \<open>SctpChunk\<close> is a tagged union (type, flags, length, and the member of \<open>as\<close> that
  belongs to the type). Each constructor carries flags, length and its member; the
  user data and the heartbeat info are the byte strings the chunk points to, so their
  stored lengths are the lengths of these lists.
\<close>

datatype SctpChunk =
    Sctp_Data u8 u16 SctpDataChunk
  | Sctp_Init u8 u16 SctpInitChunk
  | Sctp_InitAck u8 u16 SctpInitChunk
  | Sctp_Sack u8 u16 SctpSackChunk
  | Sctp_Heartbeat u8 u16 bytes
  | Sctp_HeartbeatAck u8 u16 bytes
  | Sctp_Abort u8 u16
  | Sctp_Shutdown u8 u16 u32
  | Sctp_CookieEcho u8 u16
  | Sctp_CookieAck u8 u16
  | SctpChunk_ForwardTsn u8 u16 u32
  | Sctp_Other u8 u8 u16

text \<open>
  What the DTLS session of a client holds in its outgoing memory BIO: handshake
  flights produced by the library, and application records, each the SCTP packet and
  chunks that \<open>WuSendSctp\<close> serialised and \<open>SSL_write\<close> encrypted. The byte encoding
  (\<open>SerializeSctpPacket\<close>) and the encryption are not part of Wu.cpp.
\<close>

datatype DtlsRecord =
    DtlsHandshake bytes
  | DtlsAppData SctpPacket "SctpChunk list"

text \<open>
  A parsed STUN binding request (the fields of \<open>StunPacket\<close> that the handler reads),
  and the success response with the key \<open>SerializeStunPacket\<close> signs it with.
\<close>

record StunPacket =
  transactionId :: bytes
  serverUser :: StunUserIdentifier
  remoteUser :: StunUserIdentifier

record StunResponse =
  responseTransactionId :: bytes
  xorMappedPort :: u16
  xorMappedIpv4 :: u32
  integrityKey :: StunUserIdentifier

text \<open>One call of the \<open>writeUdpData\<close> callback: the client it is for and what is written.\<close>

datatype UdpWrite =
    UdpStun StunResponse
  | UdpDtls DtlsRecord

record WuClient =
  serverUser :: StunUserIdentifier
  serverPassword :: StunUserIdentifier
  remoteUser :: StunUserIdentifier
  remoteUserPassword :: StunUserIdentifier
  address :: WuAddress
  state :: WuClientState
  localSctpPort :: u16
  remoteSctpPort :: u16
  sctpVerificationTag :: u32
  remoteTsn :: u32
  tsn :: u32
  ttl :: real
  nextHeartbeat :: real
  sslInitFinished :: bool
  outBio :: "DtlsRecord list"
  user :: nat

datatype WuEvent =
    WuEvent_ClientJoin WuClientPtr
  | WuEvent_ClientLeave WuClientPtr
  | WuEvent_TextData WuClientPtr bytes
  | WuEvent_BinaryData WuClientPtr bytes

subsection \<open>Queue, pool and arena\<close>

record WuQueue =
  items :: "WuEvent list"
  capacity :: nat

text \<open>
  Modelled from the spec: WuQueue.h is not part of the sources. The queue is a bounded
  FIFO; a push on a full queue drops the new item.
\<close>

definition WuQueuePush :: "WuQueue \<Rightarrow> WuEvent \<Rightarrow> WuQueue" where
  \<comment> \<open>Modelled from the spec: bounded FIFO, a push on a full queue drops the new item.\<close>
  "WuQueuePush q evt =
     (if length (items q) < capacity q then q\<lparr>items := items q @ [evt]\<rparr> else q)"

definition WuQueuePop :: "WuQueue \<Rightarrow> (WuEvent \<times> WuQueue) option" where
  \<comment> \<open>Modelled from the spec: the oldest item is taken; an empty queue gives nothing.\<close>
  "WuQueuePop q =
     (case items q of [] \<Rightarrow> None | e # es \<Rightarrow> Some (e, q\<lparr>items := es\<rparr>))"

record WuPool =
  freeSlots :: "WuClientPtr list"

text \<open>
  Modelled from the spec: WuPool.h is not part of the sources. The pool pre-reserves
  the client slots; acquire takes a free slot or returns NULL (None), release gives
  the slot back.
\<close>

definition WuPoolAcquire :: "WuPool \<Rightarrow> (WuClientPtr \<times> WuPool) option" where
  \<comment> \<open>Modelled from the spec: a free slot, or NULL when all slots are in use.\<close>
  "WuPoolAcquire p =
     (case freeSlots p of [] \<Rightarrow> None | s # ss \<Rightarrow> Some (s, p\<lparr>freeSlots := ss\<rparr>))"

definition WuPoolRelease :: "WuPool \<Rightarrow> WuClientPtr \<Rightarrow> WuPool" where
  \<comment> \<open>Modelled from the spec: the slot is free again.\<close>
  "WuPoolRelease p s = p\<lparr>freeSlots := s # freeSlots p\<rparr>"

record WuArena =
  arenaCapacity :: nat
  arenaUsed :: nat

text \<open>
  Modelled from the spec: WuArena.h is not part of the sources. The arena is a bump
  allocator; acquire returns the sentinel (None) when it is exhausted, reset frees
  everything.
\<close>

definition WuArenaAcquire :: "WuArena \<Rightarrow> nat \<Rightarrow> WuArena option" where
  \<comment> \<open>Modelled from the spec: bump allocation; the sentinel when exhausted.\<close>
  "WuArenaAcquire a n =
     (if arenaUsed a + n \<le> arenaCapacity a then Some (a\<lparr>arenaUsed := arenaUsed a + n\<rparr>)
      else None)"

definition WuArenaReset :: "WuArena \<Rightarrow> WuArena" where
  \<comment> \<open>Modelled from the spec: the reset frees all of the arena.\<close>
  "WuArenaReset a = a\<lparr>arenaUsed := 0\<rparr>"

subsection \<open>The engine state\<close>

text \<open>
  \<open>clients\<close> is the array \<open>wu->clients[0 .. numClients - 1]\<close>; \<open>mem\<close> is the memory of
  the pool's slots, \<open>udpOut\<close> the calls of the \<open>writeUdpData\<close> callback so far, and
  \<open>rng\<close> the number of draws made from the random source.
\<close>

record Wu =
  time :: real
  dt :: real
  port :: u16
  pendingEvents :: WuQueue
  arena :: WuArena
  clientPool :: WuPool
  clients :: "WuClientPtr list"
  maxClients :: nat
  mem :: "WuClientPtr \<Rightarrow> WuClient"
  udpOut :: "(WuClientPtr \<times> UdpWrite) list"
  rng :: nat

text \<open>The fields \<open>ParseSdp\<close> extracts from an offer.\<close>

record ICESdpFields =
  ufrag :: string
  password :: string

text \<open>The result of one \<open>SSL_do_handshake\<close> call: whether the handshake is finished
  afterwards, whether the call reported \<open>SSL_ERROR_WANT_READ\<close>, and the flights it left
  in the outgoing BIO.\<close>

record HandshakeResult =
  hsFinished :: bool
  hsWantRead :: bool
  hsOutput :: "bytes list"

text \<open>
  The parts of the program that Wu.cpp calls and that are not among the sources: the
  codecs, the random source, the DTLS library, and the constants of WuSctp.h and
  WuStun.h. They are parameters of the model. The random source is a function of the
  number of draws made before; the DTLS library is a function of the client and the
  datagram fed to it (\<open>SSL_read\<close> gives the results of the successive reads that
  empty the incoming BIO); \<open>doubleBytes\<close> is the memory representation of a double,
  and \<open>double_sub a b\<close> the double that the subtraction \<open>a - b\<close> of two doubles yields.
\<close>

record Extern =
  ParseStun :: "bytes \<Rightarrow> StunPacket option"
  ParseSctpPacket :: "bytes \<Rightarrow> (SctpPacket \<times> SctpChunk list) option"
  StunUserIdentifierEqual :: "StunUserIdentifier \<Rightarrow> StunUserIdentifier \<Rightarrow> bool"
  WuRandomU32 :: "nat \<Rightarrow> u32"
  WuRandomString :: "nat \<Rightarrow> nat \<Rightarrow> string"
  GenerateSDP :: "WuArena \<Rightarrow> u16 \<Rightarrow> StunUserIdentifier \<Rightarrow> StunUserIdentifier \<Rightarrow>
    ICESdpFields \<Rightarrow> string \<times> WuArena"
  SSL_do_handshake :: "WuClientPtr \<Rightarrow> bytes \<Rightarrow> HandshakeResult"
  SSL_read :: "WuClientPtr \<Rightarrow> bytes \<Rightarrow> bytes list"
  doubleBytes :: "real \<Rightarrow> bytes"
  double_sub :: "real \<Rightarrow> real \<Rightarrow> real"
  kSctpDefaultBufferSpace :: u32
  kSctpMinInitAckLength :: u16
  kSctpFlagCompleteUnreliable :: u8
  SctpChunkLength :: "nat \<Rightarrow> u16"
  SctpDataChunkLength :: "nat \<Rightarrow> u16"
  kMaxStunIdentifierLength :: nat

definition numClients :: "Wu \<Rightarrow> nat" where
  "numClients wu = length (clients wu)"

text \<open>Assignment through a client pointer.\<close>

definition client_update :: "Wu \<Rightarrow> WuClientPtr \<Rightarrow> (WuClient \<Rightarrow> WuClient) \<Rightarrow> Wu" where
  "client_update wu client f = wu\<lparr>mem := (mem wu)(client := f (mem wu client))\<rparr>"

subsection \<open>Data-channel constants\<close>

text \<open>
  Modelled from the spec: WuDataChannel.h is not part of the sources. The payload
  protocol identifiers are 50 (string), 51 (binary) and 53 (control); the control
  opcodes are OPEN = 0x03 and ACK = 0x02, and the opcode of a control message is its
  first byte (an empty payload is given opcode 0 here; the source would read a byte
  past the user data).
\<close>

definition DCProto_Control :: u32 where
  \<comment> \<open>Modelled from the spec: PPID 53, DCEP control.\<close>
  "DCProto_Control = 53"

definition DCProto_String :: u32 where
  \<comment> \<open>Modelled from the spec: PPID 50, UTF-8 string.\<close>
  "DCProto_String = 50"

definition DCProto_Binary :: u32 where
  \<comment> \<open>Modelled from the spec: PPID 51, binary.\<close>
  "DCProto_Binary = 51"

definition DCMessage_Ack :: u8 where
  \<comment> \<open>Modelled from the spec: DCEP ACK is the byte 0x02.\<close>
  "DCMessage_Ack = 0x02"

definition DCMessage_Open :: u8 where
  \<comment> \<open>Modelled from the spec: DCEP OPEN is the byte 0x03.\<close>
  "DCMessage_Open = 0x03"

record DataChannelPacket =
  messageType :: u8

definition ParseDataChannelControlPacket :: "bytes \<Rightarrow> DataChannelPacket" where
  \<comment> \<open>Modelled from the spec: the opcode is the first byte of the message.\<close>
  "ParseDataChannelControlPacket buf =
     \<lparr>messageType = (case buf of [] \<Rightarrow> 0 | b # _ \<Rightarrow> b)\<rparr>"

text \<open>Modelled from the spec: WuMath.h is not part of the sources; \<open>Max\<close> on unsigned
  32-bit values.\<close>

definition Max_u32 :: "u32 \<Rightarrow> u32 \<Rightarrow> u32" where
  \<comment> \<open>Modelled from the spec: the larger of two unsigned values.\<close>
  "Max_u32 a b = (if a > b then a else b)"

section \<open>Sending\<close>

definition WuPushEvent :: "Wu \<Rightarrow> WuEvent \<Rightarrow> Wu" where
  "WuPushEvent wu evt = wu\<lparr>pendingEvents := WuQueuePush (pendingEvents wu) evt\<rparr>"

text \<open>
  \<open>WuClientSendPendingDTLS\<close> drains the client's outgoing BIO into the UDP write
  callback (the loop reads until nothing is pending).
\<close>

definition WuClientSendPendingDTLS :: "Wu \<Rightarrow> WuClientPtr \<Rightarrow> Wu" where
  "WuClientSendPendingDTLS wu client =
     (client_update wu client (\<lambda>cl. cl\<lparr>outBio := []\<rparr>))
       \<lparr>udpOut := udpOut wu @ map (\<lambda>r. (client, UdpDtls r)) (outBio (mem wu client))\<rparr>"

text \<open>\<open>SSL_write\<close> leaves one application record in the outgoing BIO.\<close>

definition SSL_write :: "Wu \<Rightarrow> WuClientPtr \<Rightarrow> SctpPacket \<Rightarrow> SctpChunk list \<Rightarrow> Wu" where
  "SSL_write wu client packet chunks =
     client_update wu client (\<lambda>cl. cl\<lparr>outBio := outBio cl @ [DtlsAppData packet chunks]\<rparr>)"

definition TLSSend :: "Wu \<Rightarrow> WuClientPtr \<Rightarrow> SctpPacket \<Rightarrow> SctpChunk list \<Rightarrow> Wu" where
  "TLSSend wu client packet chunks =
     (if WuClientState_value (state (mem wu client)) < WuClientState_value WuClient_DTLSHandshake
         \<or> \<not> sslInitFinished (mem wu client)
      then wu
      else WuClientSendPendingDTLS (SSL_write wu client packet chunks) client)"

definition WuSendSctp :: "Wu \<Rightarrow> WuClientPtr \<Rightarrow> SctpPacket \<Rightarrow> SctpChunk list \<Rightarrow> Wu" where
  "WuSendSctp wu client packet chunks = TLSSend wu client packet chunks"

text \<open>
  \<open>WuSendData\<close> returns -1 below \<open>DataChannelOpen\<close>; otherwise it builds a DATA chunk
  with \<open>tsn = client->tsn++\<close> and returns 0.
\<close>

definition WuSendData :: "Extern \<Rightarrow> Wu \<Rightarrow> WuClientPtr \<Rightarrow> bytes \<Rightarrow> u32 \<Rightarrow> int \<times> Wu" where
  "WuSendData ext wu client data proto =
     (if WuClientState_value (state (mem wu client)) < WuClientState_value WuClient_DataChannelOpen
      then (- 1, wu)
      else
        let cl = mem wu client;
            packet = \<lparr>sourcePort = Wu.port wu,
                      destionationPort = remoteSctpPort cl,
                      verificationTag = sctpVerificationTag cl\<rparr>;
            dc = \<lparr>SctpDataChunk.tsn = WuClient.tsn cl, streamId = 0, streamSeq = 0,
                  protoId = proto, userData = data\<rparr>;
            rc = Sctp_Data (kSctpFlagCompleteUnreliable ext)
                   (SctpDataChunkLength ext (length data)) dc;
            wu1 = client_update wu client (\<lambda>c. c\<lparr>WuClient.tsn := WuClient.tsn c + 1\<rparr>)
        in (0, WuSendSctp wu1 client packet [rc]))"

definition WuSendText :: "Extern \<Rightarrow> Wu \<Rightarrow> WuClientPtr \<Rightarrow> bytes \<Rightarrow> int \<times> Wu" where
  "WuSendText ext wu client text = WuSendData ext wu client text DCProto_String"

definition WuSendBinary :: "Extern \<Rightarrow> Wu \<Rightarrow> WuClientPtr \<Rightarrow> bytes \<Rightarrow> int \<times> Wu" where
  "WuSendBinary ext wu client data = WuSendData ext wu client data DCProto_Binary"

section \<open>The SCTP handler\<close>

text \<open>
  The reply header that every branch of \<open>WuHandleSctp\<close> builds: the ports of the
  inbound packet swapped, and a verification tag.
\<close>

definition reply_header :: "SctpPacket \<Rightarrow> u32 \<Rightarrow> SctpPacket" where
  "reply_header sctpPacket tag =
     \<lparr>sourcePort = destionationPort sctpPacket,
      destionationPort = sourcePort sctpPacket,
      verificationTag = tag\<rparr>"

text \<open>The control branch of a DATA chunk: a DCEP OPEN is answered with an ACK in a
  DATA chunk of its own, and opens the channel.\<close>

definition WuHandleSctp_Open ::
  "Extern \<Rightarrow> Wu \<Rightarrow> WuClientPtr \<Rightarrow> SctpPacket \<Rightarrow> SctpDataChunk \<Rightarrow> Wu" where
  "WuHandleSctp_Open ext wu client sctpPacket dataChunk =
     (let wu1 = client_update wu client (\<lambda>c. c\<lparr>remoteSctpPort := sourcePort sctpPacket\<rparr>);
          response = reply_header sctpPacket (sctpVerificationTag (mem wu1 client));
          dc = \<lparr>SctpDataChunk.tsn = WuClient.tsn (mem wu1 client),
                streamId = streamId dataChunk, streamSeq = 0,
                protoId = DCProto_Control, userData = [DCMessage_Ack]\<rparr>;
          rc = Sctp_Data (kSctpFlagCompleteUnreliable ext) (SctpDataChunkLength ext 1) dc;
          wu2 = client_update wu1 client (\<lambda>c. c\<lparr>WuClient.tsn := WuClient.tsn c + 1\<rparr>);
          wu3 = (if state (mem wu2 client) \<noteq> WuClient_DataChannelOpen
                 then WuPushEvent
                        (client_update wu2 client (\<lambda>c. c\<lparr>state := WuClient_DataChannelOpen\<rparr>))
                        (WuEvent_ClientJoin client)
                 else wu2)
      in WuSendSctp wu3 client response [rc])"

definition WuHandleSctp_Data ::
  "Extern \<Rightarrow> Wu \<Rightarrow> WuClientPtr \<Rightarrow> SctpPacket \<Rightarrow> SctpDataChunk \<Rightarrow> Wu" where
  "WuHandleSctp_Data ext wu client sctpPacket dataChunk =
     (let wu1 = client_update wu client
                  (\<lambda>c. c\<lparr>remoteTsn := Max_u32 (SctpDataChunk.tsn dataChunk) (remoteTsn c),
                          ttl := kMaxClientTtl\<rparr>);
          wu2 = (if protoId dataChunk = DCProto_Control then
                   (if messageType (ParseDataChannelControlPacket (userData dataChunk))
                         = DCMessage_Open
                    then WuHandleSctp_Open ext wu1 client sctpPacket dataChunk
                    else wu1)
                 else if protoId dataChunk = DCProto_String then
                   WuPushEvent wu1 (WuEvent_TextData client (userData dataChunk))
                 else if protoId dataChunk = DCProto_Binary then
                   WuPushEvent wu1 (WuEvent_BinaryData client (userData dataChunk))
                 else wu1);
          sack = reply_header sctpPacket (sctpVerificationTag (mem wu2 client));
          rc = Sctp_Sack 0 (SctpChunkLength ext 12)
                 \<lparr>cumulativeTsnAck = remoteTsn (mem wu2 client),
                  advRecvWindow = kSctpDefaultBufferSpace ext,
                  numGapAckBlocks = 0,
                  numDupTsn = 0\<rparr>
      in WuSendSctp wu2 client sack [rc])"

definition WuHandleSctp_Init ::
  "Extern \<Rightarrow> Wu \<Rightarrow> WuClientPtr \<Rightarrow> SctpPacket \<Rightarrow> SctpInitChunk \<Rightarrow> Wu" where
  "WuHandleSctp_Init ext wu client sctpPacket init =
     (let response = reply_header sctpPacket (initiateTag init);
          wu1 = client_update wu client
                  (\<lambda>c. c\<lparr>sctpVerificationTag := verificationTag response,
                          remoteTsn := initialTsn init - 1\<rparr>);
          rc = Sctp_InitAck 0 (kSctpMinInitAckLength ext)
                 \<lparr>initiateTag = WuRandomU32 ext (rng wu1),
                  windowCredit = kSctpDefaultBufferSpace ext,
                  numOutboundStreams = numInboundStreams init,
                  numInboundStreams = numOutboundStreams init,
                  initialTsn = WuClient.tsn (mem wu1 client)\<rparr>;
          wu2 = wu1\<lparr>rng := rng wu1 + 1\<rparr>
      in WuSendSctp wu2 client response [rc])"

definition WuHandleSctp_CookieEcho ::
  "Extern \<Rightarrow> Wu \<Rightarrow> WuClientPtr \<Rightarrow> SctpPacket \<Rightarrow> Wu" where
  "WuHandleSctp_CookieEcho ext wu client sctpPacket =
     (let wu1 = (if WuClientState_value (state (mem wu client))
                      < WuClientState_value WuClient_SCTPEstablished
                 then client_update wu client (\<lambda>c. c\<lparr>state := WuClient_SCTPEstablished\<rparr>)
                 else wu);
          response = reply_header sctpPacket (sctpVerificationTag (mem wu1 client));
          rc = Sctp_CookieAck 0 (SctpChunkLength ext 0)
      in WuSendSctp wu1 client response [rc])"

definition WuHandleSctp_Heartbeat ::
  "Wu \<Rightarrow> WuClientPtr \<Rightarrow> SctpPacket \<Rightarrow> u16 \<Rightarrow> bytes \<Rightarrow> Wu" where
  "WuHandleSctp_Heartbeat wu client sctpPacket len info =
     (let response = reply_header sctpPacket (sctpVerificationTag (mem wu client));
          rc = Sctp_HeartbeatAck 0 len info;
          wu1 = client_update wu client (\<lambda>c. c\<lparr>ttl := kMaxClientTtl\<rparr>)
      in WuSendSctp wu1 client response [rc])"

definition WuHandleSctp_Sack ::
  "Extern \<Rightarrow> Wu \<Rightarrow> WuClientPtr \<Rightarrow> SctpPacket \<Rightarrow> SctpSackChunk \<Rightarrow> Wu" where
  "WuHandleSctp_Sack ext wu client sctpPacket sack =
     (if numGapAckBlocks sack > 0 then
        (let fwdResponse = reply_header sctpPacket (sctpVerificationTag (mem wu client));
             fwdTsnChunk = SctpChunk_ForwardTsn 0 (SctpChunkLength ext 4)
                             (WuClient.tsn (mem wu client))
         in WuSendSctp wu client fwdResponse [fwdTsnChunk])
      else wu)"

text \<open>
  One iteration of the loop over the parsed chunks. The boolean tells whether the loop
  goes on: INIT leaves it with \<open>break\<close>, ABORT with \<open>return\<close>, and nothing follows
  the loop. A chunk type without a branch (SHUTDOWN among them) changes nothing.
\<close>

fun WuHandleSctp_chunk ::
  "Extern \<Rightarrow> Wu \<Rightarrow> WuClientPtr \<Rightarrow> SctpPacket \<Rightarrow> SctpChunk \<Rightarrow> bool \<times> Wu" where
  "WuHandleSctp_chunk ext wu client sctpPacket (Sctp_Data f l dataChunk) =
     (True, WuHandleSctp_Data ext wu client sctpPacket dataChunk)"
| "WuHandleSctp_chunk ext wu client sctpPacket (Sctp_Init f l init) =
     (False, WuHandleSctp_Init ext wu client sctpPacket init)"
| "WuHandleSctp_chunk ext wu client sctpPacket (Sctp_CookieEcho f l) =
     (True, WuHandleSctp_CookieEcho ext wu client sctpPacket)"
| "WuHandleSctp_chunk ext wu client sctpPacket (Sctp_Heartbeat f l info) =
     (True, WuHandleSctp_Heartbeat wu client sctpPacket l info)"
| "WuHandleSctp_chunk ext wu client sctpPacket (Sctp_HeartbeatAck f l info) =
     (True, client_update wu client (\<lambda>c. c\<lparr>ttl := kMaxClientTtl\<rparr>))"
| "WuHandleSctp_chunk ext wu client sctpPacket (Sctp_Abort f l) =
     (False, client_update wu client (\<lambda>c. c\<lparr>state := WuClient_WaitingRemoval\<rparr>))"
| "WuHandleSctp_chunk ext wu client sctpPacket (Sctp_Sack f l sack) =
     (True, WuHandleSctp_Sack ext wu client sctpPacket sack)"
| "WuHandleSctp_chunk ext wu client sctpPacket (Sctp_InitAck f l init) = (True, wu)"
| "WuHandleSctp_chunk ext wu client sctpPacket (Sctp_Shutdown f l t) = (True, wu)"
| "WuHandleSctp_chunk ext wu client sctpPacket (Sctp_CookieAck f l) = (True, wu)"
| "WuHandleSctp_chunk ext wu client sctpPacket (SctpChunk_ForwardTsn f l t) = (True, wu)"
| "WuHandleSctp_chunk ext wu client sctpPacket (Sctp_Other ty f l) = (True, wu)"

fun WuHandleSctp_chunks ::
  "Extern \<Rightarrow> Wu \<Rightarrow> WuClientPtr \<Rightarrow> SctpPacket \<Rightarrow> SctpChunk list \<Rightarrow> Wu" where
  "WuHandleSctp_chunks ext wu client sctpPacket [] = wu"
| "WuHandleSctp_chunks ext wu client sctpPacket (chunk # rest) =
     (case WuHandleSctp_chunk ext wu client sctpPacket chunk of
        (True, wu1) \<Rightarrow> WuHandleSctp_chunks ext wu1 client sctpPacket rest
      | (False, wu1) \<Rightarrow> wu1)"

definition maxChunks :: nat where
  "maxChunks = 8"

text \<open>The parser fills at most \<open>maxChunks\<close> chunks; a packet it refuses is dropped.\<close>

definition WuHandleSctp :: "Extern \<Rightarrow> Wu \<Rightarrow> WuClientPtr \<Rightarrow> bytes \<Rightarrow> Wu" where
  "WuHandleSctp ext wu client buf =
     (case ParseSctpPacket ext buf of
        None \<Rightarrow> wu
      | Some (sctpPacket, chunks) \<Rightarrow>
          WuHandleSctp_chunks ext wu client sctpPacket (take maxChunks chunks))"

section \<open>STUN\<close>

text \<open>
  Modelled from the spec: WuStun.h and WuMath.h are not part of the sources. The XOR
  constants are 0x2112 and 0x2112A442, and \<open>ByteSwap\<close> reverses the bytes of a value.
\<close>

definition kStunXorMagic :: u16 where
  \<comment> \<open>Modelled from the spec: the port is XORed with 0x2112.\<close>
  "kStunXorMagic = 0x2112"

definition kStunCookie :: u32 where
  \<comment> \<open>Modelled from the spec: the magic cookie 0x2112A442.\<close>
  "kStunCookie = 0x2112A442"

definition ByteSwap_u16 :: "u16 \<Rightarrow> u16" where
  \<comment> \<open>Modelled from the spec: network byte order of a 16-bit value.\<close>
  "ByteSwap_u16 v = or (push_bit 8 v) (drop_bit 8 v)"

definition ByteSwap_u32 :: "u32 \<Rightarrow> u32" where
  \<comment> \<open>Modelled from the spec: network byte order of a 32-bit value.\<close>
  "ByteSwap_u32 v =
     or (or (push_bit 24 v) (push_bit 8 (and v 0xFF00)))
        (or (and (drop_bit 8 v) 0xFF00) (drop_bit 24 v))"

text \<open>Both lookups scan the client array from index 0 and return the first match.\<close>

definition WuFindClient :: "Wu \<Rightarrow> WuAddress \<Rightarrow> WuClientPtr option" where
  "WuFindClient wu addr =
     find (\<lambda>client. host (address (mem wu client)) = host addr
                   \<and> WuAddress.port (address (mem wu client)) = WuAddress.port addr)
          (clients wu)"

definition WuFindClientByCreds ::
  "Extern \<Rightarrow> Wu \<Rightarrow> StunUserIdentifier \<Rightarrow> StunUserIdentifier \<Rightarrow> WuClientPtr option" where
  "WuFindClientByCreds ext wu svUser clUser =
     find (\<lambda>client. StunUserIdentifierEqual ext (WuClient.serverUser (mem wu client)) svUser
                   \<and> StunUserIdentifierEqual ext (WuClient.remoteUser (mem wu client)) clUser)
          (clients wu)"

definition WuHandleStun :: "Extern \<Rightarrow> Wu \<Rightarrow> StunPacket \<Rightarrow> WuAddress \<Rightarrow> Wu" where
  "WuHandleStun ext wu packet remote =
     (case WuFindClientByCreds ext wu (StunPacket.serverUser packet) (StunPacket.remoteUser packet) of
        None \<Rightarrow> wu
      | Some client \<Rightarrow>
          (let outPacket =
                 \<lparr>responseTransactionId = transactionId packet,
                  xorMappedPort = ByteSwap_u16 (xor (WuAddress.port remote) kStunXorMagic),
                  xorMappedIpv4 = ByteSwap_u32 (xor (host remote) kStunCookie),
                  integrityKey = serverPassword (mem wu client)\<rparr>;
               wu1 = wu\<lparr>udpOut := udpOut wu @ [(client, UdpStun outPacket)]\<rparr>
           in client_update wu1 client
                (\<lambda>c. c\<lparr>localSctpPort := WuAddress.port remote, address := remote\<rparr>)))"

section \<open>DTLS ingress\<close>

text \<open>
  The loop that reads the decrypted records: each non-empty one is copied into the
  arena and handed to the SCTP handler. The source does not test the pointer that
  \<open>WuArenaAcquire\<close> returns, so an exhausted arena makes \<open>memcpy\<close> write through the
  null sentinel: the result \<open>None\<close> stands for that fault.
\<close>

fun WuReceive_records :: "Extern \<Rightarrow> Wu \<Rightarrow> WuClientPtr \<Rightarrow> bytes list \<Rightarrow> Wu option" where
  "WuReceive_records ext wu client [] = Some wu"
| "WuReceive_records ext wu client (receiveBuffer # rest) =
     (if length receiveBuffer > 0 then
        (case WuArenaAcquire (arena wu) (length receiveBuffer) of
           None \<Rightarrow> None
         | Some a \<Rightarrow>
             WuReceive_records ext (WuHandleSctp ext (wu\<lparr>arena := a\<rparr>) client receiveBuffer)
               client rest)
      else WuReceive_records ext wu client rest)"

definition WuReceiveDTLSPacket :: "Extern \<Rightarrow> Wu \<Rightarrow> bytes \<Rightarrow> WuAddress \<Rightarrow> Wu option" where
  "WuReceiveDTLSPacket ext wu data addr =
     (case WuFindClient wu addr of
        None \<Rightarrow> Some wu
      | Some client \<Rightarrow>
          if \<not> sslInitFinished (mem wu client) then
            (let r = SSL_do_handshake ext client data;
                 wu1 = client_update wu client
                         (\<lambda>c. c\<lparr>sslInitFinished := hsFinished r,
                                 outBio := outBio c @ map DtlsHandshake (hsOutput r)\<rparr>)
             in Some (if hsWantRead r then WuClientSendPendingDTLS wu1 client else wu1))
          else
            WuReceive_records ext (WuClientSendPendingDTLS wu client) client
              (SSL_read ext client data))"

definition WuHandleUDP :: "Extern \<Rightarrow> Wu \<Rightarrow> WuAddress \<Rightarrow> bytes \<Rightarrow> Wu option" where
  "WuHandleUDP ext wu remote data =
     (case ParseStun ext data of
        Some stunPacket \<Rightarrow> Some (WuHandleStun ext wu stunPacket remote)
      | None \<Rightarrow> WuReceiveDTLSPacket ext wu data remote)"

section \<open>The tick\<close>

definition WuSendHeartbeat :: "Extern \<Rightarrow> Wu \<Rightarrow> WuClientPtr \<Rightarrow> Wu" where
  "WuSendHeartbeat ext wu client =
     (let packet = \<lparr>sourcePort = Wu.port wu,
                     destionationPort = remoteSctpPort (mem wu client),
                     verificationTag = sctpVerificationTag (mem wu client)\<rparr>;
          rc = Sctp_Heartbeat (kSctpFlagCompleteUnreliable ext) (SctpChunkLength ext (4 + 8))
                 (doubleBytes ext (time wu))
      in WuSendSctp wu client packet [rc])"

text \<open>The body of the loop of \<open>WuUpdateClients\<close>, for one entry of the client array.\<close>

definition WuUpdateClient :: "Extern \<Rightarrow> WuClientPtr \<Rightarrow> Wu \<Rightarrow> Wu" where
  "WuUpdateClient ext client wu =
     (let wu1 = client_update wu client
                  (\<lambda>c. c\<lparr>ttl := double_sub ext (ttl c) (dt wu),
                          nextHeartbeat := double_sub ext (nextHeartbeat c) (dt wu)\<rparr>);
          wu2 = (if nextHeartbeat (mem wu1 client) \<le> 0 then
                   WuSendHeartbeat ext
                     (client_update wu1 client (\<lambda>c. c\<lparr>nextHeartbeat := heartbeatInterval\<rparr>))
                     client
                 else wu1)
      in WuClientSendPendingDTLS wu2 client)"

text \<open>\<open>t\<close> is the clock reading \<open>MsNow() * 0.001\<close> of this call.\<close>

definition WuUpdateClients :: "Extern \<Rightarrow> Wu \<Rightarrow> real \<Rightarrow> Wu" where
  "WuUpdateClients ext wu t =
     (let wu1 = wu\<lparr>dt := double_sub ext t (time wu), time := t\<rparr>
      in fold (WuUpdateClient ext) (clients wu1) wu1)"

definition client_expired :: "Wu \<Rightarrow> WuClientPtr \<Rightarrow> bool" where
  "client_expired wu client \<longleftrightarrow>
     ttl (mem wu client) \<le> 0 \<or> state (mem wu client) = WuClient_WaitingRemoval"

definition WuPurgeDeadClients :: "Wu \<Rightarrow> Wu" where
  "WuPurgeDeadClients wu =
     fold (\<lambda>client w. if client_expired w client
                       then WuPushEvent w (WuEvent_ClientLeave client) else w)
          (clients wu) wu"

text \<open>
  \<open>WuUpdate\<close> returns 1 and the popped event, or runs the tick and returns 0 (the
  caller's event is then left untouched: \<open>None\<close>).
\<close>

definition WuUpdate :: "Extern \<Rightarrow> Wu \<Rightarrow> real \<Rightarrow> int \<times> WuEvent option \<times> Wu" where
  "WuUpdate ext wu t =
     (case WuQueuePop (pendingEvents wu) of
        Some (evt, q) \<Rightarrow> (1, Some evt, wu\<lparr>pendingEvents := q\<rparr>)
      | None \<Rightarrow>
          (let wu1 = WuUpdateClients ext wu t;
               wu2 = wu1\<lparr>arena := WuArenaReset (arena wu1)\<rparr>
           in (0, None, WuPurgeDeadClients wu2)))"

section \<open>Client slots\<close>

text \<open>The slot after \<open>memset(client, 0, sizeof(WuClient))\<close>.\<close>

definition zero_identifier :: "Extern \<Rightarrow> StunUserIdentifier" where
  "zero_identifier ext =
     \<lparr>ident_bytes = replicate (kMaxStunIdentifierLength ext) (CHR 0x00), ident_length = 0\<rparr>"

definition zero_client :: "Extern \<Rightarrow> WuClient" where
  "zero_client ext =
     \<lparr>serverUser = zero_identifier ext, serverPassword = zero_identifier ext,
      remoteUser = zero_identifier ext, remoteUserPassword = zero_identifier ext,
      address = \<lparr>host = 0, port = 0\<rparr>, state = WuClient_Dead,
      localSctpPort = 0, remoteSctpPort = 0, sctpVerificationTag = 0,
      remoteTsn = 0, tsn = 0, ttl = 0, nextHeartbeat = 0,
      sslInitFinished = False, outBio = [], user = 0\<rparr>"

text \<open>\<open>WuClientStart\<close> also creates a fresh DTLS session in accept state.\<close>

definition WuClientStart :: "WuClient \<Rightarrow> WuClient" where
  "WuClientStart c =
     c\<lparr>state := WuClient_DTLSHandshake, remoteSctpPort := 0, sctpVerificationTag := 0,
       remoteTsn := 0, tsn := 1, ttl := kMaxClientTtl, nextHeartbeat := heartbeatInterval,
       user := 0, sslInitFinished := False, outBio := []\<rparr>"

definition WuClientFinish :: "WuClient \<Rightarrow> WuClient" where
  "WuClientFinish c = c\<lparr>sslInitFinished := False, outBio := [], state := WuClient_Dead\<rparr>"

definition WuNewClient :: "Extern \<Rightarrow> Wu \<Rightarrow> (WuClientPtr \<times> Wu) option" where
  "WuNewClient ext wu =
     (case WuPoolAcquire (clientPool wu) of
        None \<Rightarrow> None
      | Some (client, pool) \<Rightarrow>
          Some (client,
                (client_update (wu\<lparr>clientPool := pool\<rparr>) client
                   (\<lambda>c. WuClientStart (zero_client ext)))
                  \<lparr>clients := clients wu @ [client]\<rparr>))"

definition WuSendSctpShutdown :: "Extern \<Rightarrow> Wu \<Rightarrow> WuClientPtr \<Rightarrow> Wu" where
  "WuSendSctpShutdown ext wu client =
     (let response = \<lparr>sourcePort = localSctpPort (mem wu client),
                       destionationPort = remoteSctpPort (mem wu client),
                       verificationTag = sctpVerificationTag (mem wu client)\<rparr>;
          rc = Sctp_Shutdown 0 (SctpChunkLength ext 4) (remoteTsn (mem wu client))
      in WuSendSctp wu client response [rc])"

text \<open>The index of the first entry of the client array that is this pointer.\<close>

fun client_index :: "WuClientPtr list \<Rightarrow> WuClientPtr \<Rightarrow> nat option" where
  "client_index [] client = None"
| "client_index (c # cs) client =
     (if c = client then Some 0 else map_option Suc (client_index cs client))"

definition WuRemoveClient :: "Extern \<Rightarrow> Wu \<Rightarrow> WuClientPtr \<Rightarrow> Wu" where
  "WuRemoveClient ext wu client =
     (case client_index (clients wu) client of
        None \<Rightarrow> wu
      | Some i \<Rightarrow>
          (let wu1 = WuSendSctpShutdown ext wu client;
               wu2 = client_update wu1 client WuClientFinish;
               wu3 = wu2\<lparr>clientPool := WuPoolRelease (clientPool wu2) client\<rparr>
           in wu3\<lparr>clients := butlast ((clients wu3)[i := last (clients wu3)])\<rparr>))"

section \<open>SDP exchange\<close>

text \<open>
  Modelled from the spec: WuSdp.h is not part of the sources. \<open>ParseSdp\<close> scans the
  lines of the offer, extracts the values of \<open>a=ice-ufrag:\<close> and \<open>a=ice-pwd:\<close> and
  ignores every other line; it fails when either attribute is absent. Lines end at a
  line feed, a carriage return before it is not part of the line, and the first
  occurrence of an attribute is the one extracted.
\<close>

fun sdp_lines_from :: "string \<Rightarrow> string \<Rightarrow> string list" where
  "sdp_lines_from cur [] = [cur]"
| "sdp_lines_from cur (c # cs) =
     (if c = CHR 0x0A then cur # sdp_lines_from [] cs else sdp_lines_from (cur @ [c]) cs)"

definition strip_cr :: "string \<Rightarrow> string" where
  "strip_cr l = (if l \<noteq> [] \<and> last l = CHR 0x0D then butlast l else l)"

definition sdp_lines :: "string \<Rightarrow> string list" where
  \<comment> \<open>Modelled from the spec: the lines of the offer.\<close>
  "sdp_lines offer = map strip_cr (sdp_lines_from [] offer)"

definition starts_with :: "string \<Rightarrow> string \<Rightarrow> bool" where
  "starts_with p l \<longleftrightarrow> take (length p) l = p"

fun sdp_attribute :: "string \<Rightarrow> string list \<Rightarrow> string option" where
  \<comment> \<open>Modelled from the spec: the value of the first line that starts with the attribute name.\<close>
  "sdp_attribute name [] = None"
| "sdp_attribute name (l # ls) =
     (if starts_with name l then Some (drop (length name) l) else sdp_attribute name ls)"

definition ParseSdp :: "string \<Rightarrow> ICESdpFields option" where
  \<comment> \<open>Modelled from the spec: both attributes are extracted, and the call fails when either is absent.\<close>
  "ParseSdp offer =
     (case sdp_attribute ''a=ice-ufrag:'' (sdp_lines offer) of
        None \<Rightarrow> None
      | Some u \<Rightarrow>
          (case sdp_attribute ''a=ice-pwd:'' (sdp_lines offer) of
             None \<Rightarrow> None
           | Some p \<Rightarrow> Some \<lparr>ufrag = u, password = p\<rparr>))"

text \<open>An offer has an attribute when one of its lines starts with the attribute's name.\<close>

definition has_attribute :: "string \<Rightarrow> string \<Rightarrow> bool" where
  "has_attribute name offer \<longleftrightarrow> (\<exists>l \<in> set (sdp_lines offer). starts_with name l)"

datatype WuSDPStatus =
    WuSDPStatus_Success
  | WuSDPStatus_InvalidSDP
  | WuSDPStatus_MaxClients

record SDPResult =
  status :: WuSDPStatus
  sdp_client :: "WuClientPtr option"
  sdp_answer :: "string option"
  sdp_length :: int

text \<open>Writing \<open>src\<close> at the start of the array \<open>dst\<close>.\<close>

definition write_bytes :: "string \<Rightarrow> string \<Rightarrow> string" where
  "write_bytes dst src = src @ drop (length src) dst"

definition WuExchangeSDP :: "Extern \<Rightarrow> Wu \<Rightarrow> string \<Rightarrow> SDPResult \<times> Wu" where
  "WuExchangeSDP ext wu offer =
     (case ParseSdp offer of
        None \<Rightarrow>
          (\<lparr>status = WuSDPStatus_InvalidSDP, sdp_client = None, sdp_answer = None,
            sdp_length = 0\<rparr>, wu)
      | Some iceFields \<Rightarrow>
          (case WuNewClient ext wu of
             None \<Rightarrow>
               (\<lparr>status = WuSDPStatus_MaxClients, sdp_client = None, sdp_answer = None,
                 sdp_length = 0\<rparr>, wu)
           | Some (client, wu1) \<Rightarrow>
               (let kmax = kMaxStunIdentifierLength ext;
                    wu2 = client_update wu1 client
                            (\<lambda>c. c\<lparr>serverUser :=
                                   \<lparr>ident_bytes = write_bytes (ident_bytes (WuClient.serverUser c))
                                                    (WuRandomString ext (rng wu1) 4),
                                    ident_length = 4\<rparr>\<rparr>);
                    wu3 = client_update (wu2\<lparr>rng := rng wu2 + 1\<rparr>) client
                            (\<lambda>c. c\<lparr>serverPassword :=
                                   \<lparr>ident_bytes = write_bytes (ident_bytes (serverPassword c))
                                                    (WuRandomString ext (rng wu2 + 1) 24),
                                    ident_length = 24\<rparr>\<rparr>);
                    wu4 = client_update (wu3\<lparr>rng := rng wu3 + 1\<rparr>) client
                            (\<lambda>c. c\<lparr>remoteUser :=
                                   \<lparr>ident_bytes = write_bytes (ident_bytes (WuClient.remoteUser c))
                                                    (take (min (length (ufrag iceFields)) kmax)
                                                       (ufrag iceFields)),
                                    ident_length = length (ufrag iceFields)\<rparr>\<rparr>);
                    wu5 = client_update wu4 client
                            (\<lambda>c. c\<lparr>remoteUserPassword :=
                                   (remoteUserPassword c)
                                     \<lparr>ident_bytes :=
                                        write_bytes (ident_bytes (remoteUserPassword c))
                                          (take (min (length (password iceFields)) kmax)
                                             (password iceFields))\<rparr>\<rparr>);
                    (answer, a) = GenerateSDP ext (arena wu5) (Wu.port wu5)
                                    (WuClient.serverUser (mem wu5 client))
                                    (serverPassword (mem wu5 client)) iceFields
                in (\<lparr>status = WuSDPStatus_Success, sdp_client = Some client,
                     sdp_answer = Some answer, sdp_length = int (length answer)\<rparr>,
                    wu5\<lparr>arena := a\<rparr>))))"

section \<open>Concrete inputs\<close>

text \<open>
  An instance of the external parts, and an engine with one client in slot 0 (bound to
  10.0.0.1:5000, DTLS handshake finished) and one free slot, used to run the
  definitions on concrete inputs. The subtraction of the instance returns the exact
  difference, which is what the subtraction of doubles returns whenever the difference
  is a double itself, as it is for the small whole numbers of seconds used below.
\<close>

definition ex_ext :: Extern where
  "ex_ext =
     \<lparr>ParseStun = (\<lambda>d. None),
      ParseSctpPacket = (\<lambda>d. None),
      StunUserIdentifierEqual = (\<lambda>a b. a = b),
      WuRandomU32 = (\<lambda>n. 7 + of_nat n),
      WuRandomString = (\<lambda>n k. replicate k (CHR ''r'')),
      GenerateSDP = (\<lambda>a p u pw f. (''v=0'', a)),
      SSL_do_handshake = (\<lambda>c d. \<lparr>hsFinished = False, hsWantRead = True, hsOutput = [d]\<rparr>),
      SSL_read = (\<lambda>c d. [d]),
      doubleBytes = (\<lambda>t. replicate 8 0),
      double_sub = (\<lambda>a b. a - b),
      kSctpDefaultBufferSpace = 0x40000,
      kSctpMinInitAckLength = 32,
      kSctpFlagCompleteUnreliable = 7,
      SctpChunkLength = (\<lambda>n. of_nat (4 + n)),
      SctpDataChunkLength = (\<lambda>n. of_nat (16 + n)),
      kMaxStunIdentifierLength = 32\<rparr>"

definition ex_id :: "string \<Rightarrow> StunUserIdentifier" where
  "ex_id s = \<lparr>ident_bytes = s, ident_length = length s\<rparr>"

definition ex_client :: "WuClientState \<Rightarrow> u32 \<Rightarrow> real \<Rightarrow> WuClient" where
  "ex_client st n life =
     \<lparr>serverUser = ex_id ''srvu'', serverPassword = ex_id ''secret'',
      remoteUser = ex_id ''abcd'', remoteUserPassword = ex_id [],
      address = \<lparr>host = 0x0A000001, port = 5000\<rparr>, state = st,
      localSctpPort = 5000, remoteSctpPort = 5000, sctpVerificationTag = 0x11,
      remoteTsn = 999, tsn = n, ttl = life, nextHeartbeat = 4,
      sslInitFinished = True, outBio = [], user = 0\<rparr>"

definition ex_wu :: "WuClientState \<Rightarrow> u32 \<Rightarrow> real \<Rightarrow> Wu" where
  "ex_wu st n life =
     \<lparr>time = 0, dt = 0, port = 9555,
      pendingEvents = \<lparr>items = [], capacity = 1024\<rparr>,
      arena = \<lparr>arenaCapacity = 1048576, arenaUsed = 0\<rparr>,
      clientPool = \<lparr>freeSlots = [1]\<rparr>,
      clients = [0], maxClients = 2,
      mem = (\<lambda>p. if p = 0 then ex_client st n life else ex_client WuClient_Dead 1 8),
      udpOut = [], rng = 0\<rparr>"

definition ex_packet :: SctpPacket where
  "ex_packet = \<lparr>sourcePort = 5000, destionationPort = 5001, verificationTag = 0x22\<rparr>"

definition ex_data :: "u32 \<Rightarrow> u32 \<Rightarrow> bytes \<Rightarrow> SctpChunk" where
  "ex_data t ppid payload =
     Sctp_Data 7 (of_nat (16 + length payload))
       \<lparr>SctpDataChunk.tsn = t, streamId = 1, streamSeq = 0, protoId = ppid,
        userData = payload\<rparr>"

definition ex_init :: SctpChunk where
  "ex_init =
     Sctp_Init 0 20
       \<lparr>initiateTag = 5, windowCredit = 0x20000, numOutboundStreams = 3,
        numInboundStreams = 4, initialTsn = 1000\<rparr>"

definition ex_sack :: "u16 \<Rightarrow> SctpChunk" where
  "ex_sack gaps =
     Sctp_Sack 0 16
       \<lparr>cumulativeTsnAck = 0, advRecvWindow = 0x20000, numGapAckBlocks = gaps,
        numDupTsn = 0\<rparr>"

text \<open>
  The states after the first three of four successive \<open>WuUpdate\<close> calls on the engine
  whose client has a ttl of 8 seconds, with the clock at 9, 10, 11 and 12 seconds, the
  embedder never removing the client.
\<close>

definition ex_run1 :: Wu where
  "ex_run1 = snd (snd (WuUpdate ex_ext (ex_wu WuClient_DataChannelOpen 1 8) 9))"



text \<open>A binding request with the credentials of the example client, and an instance
  of the external parts whose STUN parser accepts every datagram as this request.\<close>

definition ex_stun :: StunPacket where
  "ex_stun =
     \<lparr>transactionId = [1, 2, 3, 4, 5, 6, 7, 8, 9, 10, 11, 12],
      serverUser = ex_id ''srvu'', remoteUser = ex_id ''abcd''\<rparr>"

definition ex_ext_stun :: Extern where
  "ex_ext_stun = ex_ext\<lparr>ParseStun := (\<lambda>d. Some ex_stun)\<rparr>"

text \<open>An offer of two lines that has a password attribute and no ufrag attribute.\<close>

definition ex_offer :: string where
  "ex_offer = ''v=0'' @ [CHR 0x0A] @ ''a=ice-pwd:efgh''"

text \<open>An offer with both ICE attributes.\<close>

definition ex_offer_ok :: string where
  "ex_offer_ok = ''a=ice-ufrag:abcd'' @ [CHR 0x0A] @ ''a=ice-pwd:efgh''"

text \<open>An instance of the external parts whose DTLS library decrypts every datagram to
  one record and whose SCTP parser reads every record as a packet with one DCEP OPEN.\<close>

definition ex_ext_dtls :: Extern where
  "ex_ext_dtls = ex_ext\<lparr>ParseSctpPacket := (\<lambda>d. Some (ex_packet, [ex_data 1005 53 [3]]))\<rparr>"

section \<open>Notions used in the statements\<close>

text \<open>The guard of \<open>TLSSend\<close>: a record is written only for a client in
  \<open>DTLSHandshake\<close> or a later state whose handshake is finished.\<close>

definition send_allowed :: "WuClient \<Rightarrow> bool" where
  "send_allowed cl \<longleftrightarrow>
     \<not> (WuClientState_value (state cl) < WuClientState_value WuClient_DTLSHandshake
        \<or> \<not> sslInitFinished cl)"

text \<open>The calls of the write callback made between an earlier and a later state.\<close>

definition new_writes :: "Wu \<Rightarrow> Wu \<Rightarrow> (WuClientPtr \<times> UdpWrite) list" where
  "new_writes wu wu' = drop (length (udpOut wu)) (udpOut wu')"

text \<open>What a flush of the client's outgoing BIO writes, and the write of one SCTP
  packet.\<close>

definition pending_writes :: "Wu \<Rightarrow> WuClientPtr \<Rightarrow> (WuClientPtr \<times> UdpWrite) list" where
  "pending_writes wu client = map (\<lambda>r. (client, UdpDtls r)) (outBio (mem wu client))"

definition sctp_write ::
  "WuClientPtr \<Rightarrow> SctpPacket \<Rightarrow> SctpChunk \<Rightarrow> WuClientPtr \<times> UdpWrite" where
  "sctp_write client packet chunk = (client, UdpDtls (DtlsAppData packet [chunk]))"

text \<open>A DATA chunk that carries a DCEP OPEN: control protocol, opcode OPEN.\<close>

definition is_dcep_open :: "SctpDataChunk \<Rightarrow> bool" where
  "is_dcep_open d \<longleftrightarrow>
     protoId d = DCProto_Control
     \<and> messageType (ParseDataChannelControlPacket (userData d)) = DCMessage_Open"

text \<open>The ACK that answers a DCEP OPEN, and the SACK that answers a DATA chunk.\<close>

definition dcep_ack_chunk :: "Extern \<Rightarrow> u32 \<Rightarrow> u16 \<Rightarrow> SctpChunk" where
  "dcep_ack_chunk ext n stream =
     Sctp_Data (kSctpFlagCompleteUnreliable ext) (SctpDataChunkLength ext 1)
       \<lparr>SctpDataChunk.tsn = n, streamId = stream, streamSeq = 0,
        protoId = DCProto_Control, userData = [DCMessage_Ack]\<rparr>"

definition sack_chunk :: "Extern \<Rightarrow> u32 \<Rightarrow> SctpChunk" where
  "sack_chunk ext cum =
     Sctp_Sack 0 (SctpChunkLength ext 12)
       \<lparr>cumulativeTsnAck = cum, advRecvWindow = kSctpDefaultBufferSpace ext,
        numGapAckBlocks = 0, numDupTsn = 0\<rparr>"

text \<open>The credentials of a binding request match a client.\<close>

definition creds_match :: "Extern \<Rightarrow> Wu \<Rightarrow> StunPacket \<Rightarrow> WuClientPtr \<Rightarrow> bool" where
  "creds_match ext wu packet client \<longleftrightarrow>
     StunUserIdentifierEqual ext (WuClient.serverUser (mem wu client)) (StunPacket.serverUser packet)
     \<and> StunUserIdentifierEqual ext (WuClient.remoteUser (mem wu client)) (StunPacket.remoteUser packet)"

text \<open>The chunks after which the loop over a packet stops, the chunks that carry a
  DCEP OPEN, and the number of DCEP OPENs among the chunks of a packet that the loop
  reaches.\<close>

fun chunk_stops :: "SctpChunk \<Rightarrow> bool" where
  "chunk_stops (Sctp_Init f l i) = True"
| "chunk_stops (Sctp_Abort f l) = True"
| "chunk_stops c = False"

fun chunk_is_dcep_open :: "SctpChunk \<Rightarrow> bool" where
  "chunk_is_dcep_open (Sctp_Data f l d) = is_dcep_open d"
| "chunk_is_dcep_open c = False"

fun opens_processed :: "SctpChunk list \<Rightarrow> nat" where
  "opens_processed [] = 0"
| "opens_processed (c # cs) =
     (if chunk_stops c then 0
      else (if chunk_is_dcep_open c then 1 else 0) + opens_processed cs)"

text \<open>
  The tick, for a tick length \<open>d\<close>: the client record after the countdown and the
  flush, what the tick writes for a client (its pending DTLS output, then a HEARTBEAT
  with the clock reading \<open>t\<close> when the heartbeat countdown has run out and the client
  may be sent to), and whether the walk over the clients enqueues a \<open>ClientLeave\<close> for
  the client.
\<close>

definition countdown_client :: "Extern \<Rightarrow> real \<Rightarrow> WuClient \<Rightarrow> WuClient" where
  "countdown_client ext d cl =
     cl\<lparr>ttl := double_sub ext (ttl cl) d,
        nextHeartbeat := (if double_sub ext (nextHeartbeat cl) d \<le> 0 then 4
                          else double_sub ext (nextHeartbeat cl) d),
        outBio := []\<rparr>"

definition tick_writes ::
  "Extern \<Rightarrow> Wu \<Rightarrow> real \<Rightarrow> real \<Rightarrow> WuClientPtr \<Rightarrow> (WuClientPtr \<times> UdpWrite) list" where
  "tick_writes ext wu d t client =
     pending_writes wu client @
     (if double_sub ext (nextHeartbeat (mem wu client)) d \<le> 0 \<and> send_allowed (mem wu client)
      then [sctp_write client
              \<lparr>sourcePort = Wu.port wu, destionationPort = remoteSctpPort (mem wu client),
               verificationTag = sctpVerificationTag (mem wu client)\<rparr>
              (Sctp_Heartbeat (kSctpFlagCompleteUnreliable ext) (SctpChunkLength ext (4 + 8))
                 (doubleBytes ext t))]
      else [])"

definition leave_due :: "Extern \<Rightarrow> real \<Rightarrow> WuClient \<Rightarrow> bool" where
  "leave_due ext d cl \<longleftrightarrow>
     double_sub ext (ttl cl) d \<le> 0 \<or> state cl = WuClient_WaitingRemoval"

text \<open>
  The number of DCEP OPENs that the handler processes in one decrypted record, in the
  records read from one datagram (empty reads are skipped), and in one datagram
  received for a client: none when the datagram is a STUN request, when it is from
  another address than the client's, or when the client's handshake is not finished.
\<close>

definition opens_in_packet :: "Extern \<Rightarrow> bytes \<Rightarrow> nat" where
  "opens_in_packet ext buf =
     (case ParseSctpPacket ext buf of
        None \<Rightarrow> 0
      | Some (sctpPacket, chunks) \<Rightarrow> opens_processed (take maxChunks chunks))"

fun opens_in_records :: "Extern \<Rightarrow> bytes list \<Rightarrow> nat" where
  "opens_in_records ext [] = 0"
| "opens_in_records ext (buf # rest) =
     (if length buf > 0 then opens_in_packet ext buf else 0) + opens_in_records ext rest"

definition opens_in_datagram ::
  "Extern \<Rightarrow> Wu \<Rightarrow> WuAddress \<Rightarrow> bytes \<Rightarrow> WuClientPtr \<Rightarrow> nat" where
  "opens_in_datagram ext wu remote data p =
     (if ParseStun ext data = None \<and> WuFindClient wu remote = Some p
         \<and> sslInitFinished (mem wu p)
      then opens_in_records ext (SSL_read ext p data) else 0)"

section \<open>The send path\<close>

lemma TLSSend_udpOut:
  "udpOut (TLSSend wu client packet chunks) =
     (if send_allowed (mem wu client)
      then udpOut wu @ pending_writes wu client @ [(client, UdpDtls (DtlsAppData packet chunks))]
      else udpOut wu)"
  by (simp add: TLSSend_def send_allowed_def WuClientSendPendingDTLS_def SSL_write_def
        client_update_def pending_writes_def)

lemma TLSSend_mem:
  "mem (TLSSend wu client packet chunks) =
     (if send_allowed (mem wu client)
      then (mem wu)(client := (mem wu client)\<lparr>outBio := []\<rparr>)
      else mem wu)"
  by (simp add: TLSSend_def send_allowed_def WuClientSendPendingDTLS_def SSL_write_def
        client_update_def)

lemma TLSSend_other:
  "rng (TLSSend wu client packet chunks) = rng wu"
  "pendingEvents (TLSSend wu client packet chunks) = pendingEvents wu"
  "clients (TLSSend wu client packet chunks) = clients wu"
  "arena (TLSSend wu client packet chunks) = arena wu"
  "clientPool (TLSSend wu client packet chunks) = clientPool wu"
  "time (TLSSend wu client packet chunks) = time wu"
  "dt (TLSSend wu client packet chunks) = dt wu"
  "Wu.port (TLSSend wu client packet chunks) = Wu.port wu"
  "maxClients (TLSSend wu client packet chunks) = maxClients wu"
  by (simp_all add: TLSSend_def WuClientSendPendingDTLS_def SSL_write_def client_update_def)

lemma TLSSend_blocked: "\<not> send_allowed (mem wu client) \<Longrightarrow> TLSSend wu client packet chunks = wu"
  by (auto simp: TLSSend_def send_allowed_def)

lemma WuPushEvent_simps:
  "mem (WuPushEvent wu e) = mem wu"
  "udpOut (WuPushEvent wu e) = udpOut wu"
  "rng (WuPushEvent wu e) = rng wu"
  "clients (WuPushEvent wu e) = clients wu"
  by (simp_all add: WuPushEvent_def)

lemma Open_udpOut:
  "udpOut (WuHandleSctp_Open ext wu client sctpPacket d) =
     (if sslInitFinished (mem wu client)
      then udpOut wu @ pending_writes wu client @
           [sctp_write client (reply_header sctpPacket (sctpVerificationTag (mem wu client)))
              (dcep_ack_chunk ext (WuClient.tsn (mem wu client)) (streamId d))]
      else udpOut wu)"
  by (simp add: WuHandleSctp_Open_def Let_def WuSendSctp_def TLSSend_udpOut WuPushEvent_simps
        client_update_def send_allowed_def pending_writes_def sctp_write_def dcep_ack_chunk_def)

lemma Open_mem:
  "mem (WuHandleSctp_Open ext wu client sctpPacket d) =
     (mem wu)(client := (mem wu client)
        \<lparr>remoteSctpPort := sourcePort sctpPacket,
         WuClient.tsn := WuClient.tsn (mem wu client) + 1,
         state := WuClient_DataChannelOpen,
         outBio := (if sslInitFinished (mem wu client) then [] else outBio (mem wu client))\<rparr>)"
  by (auto simp add: WuHandleSctp_Open_def Let_def WuSendSctp_def TLSSend_mem WuPushEvent_simps
        client_update_def send_allowed_def fun_eq_iff)

lemma Max_u32_max: "Max_u32 a b = max b a"
  by (auto simp: Max_u32_def max_def)

lemma DCProto_distinct:
  "DCProto_String \<noteq> DCProto_Control" "DCProto_Binary \<noteq> DCProto_Control"
  "DCProto_Binary \<noteq> DCProto_String"
  by (simp_all add: DCProto_String_def DCProto_Control_def DCProto_Binary_def)

lemmas model_defs =
  WuHandleSctp_Data_def WuHandleSctp_Open_def WuHandleSctp_Init_def WuHandleSctp_Sack_def
  WuHandleSctp_CookieEcho_def WuHandleSctp_Heartbeat_def
  WuSendSctp_def TLSSend_def SSL_write_def WuClientSendPendingDTLS_def
  WuPushEvent_def WuQueuePush_def WuQueuePop_def client_update_def Let_def
  Max_u32_def kMaxClientTtl_def heartbeatInterval_def reply_header_def
  DCProto_Control_def DCProto_String_def DCProto_Binary_def DCMessage_Open_def
  DCMessage_Ack_def ParseDataChannelControlPacket_def
  WuSendData_def WuSendText_def WuSendBinary_def

lemmas notion_defs =
  send_allowed_def new_writes_def pending_writes_def sctp_write_def is_dcep_open_def
  dcep_ack_chunk_def sack_chunk_def

lemmas example_defs =
  ex_wu_def ex_client_def ex_ext_def ex_packet_def ex_data_def ex_init_def ex_sack_def ex_id_def

section \<open>INIT\<close>




section \<open>SHUTDOWN\<close>

text \<open>
  Claim C3 as stated fails: a SHUTDOWN chunk processed for a client whose data channel
  is open leaves the client in \<open>DataChannelOpen\<close>.
\<close>

theorem shutdown_does_not_set_waiting_removal:
  "state (mem (snd (WuHandleSctp_chunk ex_ext (ex_wu WuClient_DataChannelOpen 1 8) 0 ex_packet
                      (Sctp_Shutdown 0 8 999))) 0)
     = WuClient_DataChannelOpen
   \<and> state (mem (snd (WuHandleSctp_chunk ex_ext (ex_wu WuClient_DataChannelOpen 1 8) 0 ex_packet
                        (Sctp_Shutdown 0 8 999))) 0)
     \<noteq> WuClient_WaitingRemoval"
  by (simp add: ex_wu_def ex_client_def)

text \<open>
  Claim C3, amended. The handler has no branch for SHUTDOWN: processing such a chunk
  changes nothing in the engine (the client's state included, and nothing is written)
  and the loop goes on with the next chunk, so a packet that holds only a SHUTDOWN
  chunk leaves the engine as it was.
\<close>

theorem shutdown_chunk_is_ignored:
  "WuHandleSctp_chunk ext wu client sctpPacket (Sctp_Shutdown f l t) = (True, wu)
   \<and> WuHandleSctp_chunks ext wu client sctpPacket (Sctp_Shutdown f l t # rest)
       = WuHandleSctp_chunks ext wu client sctpPacket rest
   \<and> (ParseSctpPacket ext buf = Some (sctpPacket, [Sctp_Shutdown f l t]) \<longrightarrow>
        WuHandleSctp ext wu client buf = wu)"
  by (simp add: WuHandleSctp_def maxChunks_def)

theorem shutdown_chunk_is_ignored_witness:
  "ParseSctpPacket (ex_ext\<lparr>ParseSctpPacket := \<lambda>d. Some (ex_packet, [Sctp_Shutdown 0 8 999])\<rparr>) [1]
     = Some (ex_packet, [Sctp_Shutdown 0 8 999])
   \<and> WuHandleSctp (ex_ext\<lparr>ParseSctpPacket := \<lambda>d. Some (ex_packet, [Sctp_Shutdown 0 8 999])\<rparr>)
         (ex_wu WuClient_DataChannelOpen 1 8) 0 [1]
       = ex_wu WuClient_DataChannelOpen 1 8"
  using shutdown_chunk_is_ignored
          [where ext = "ex_ext\<lparr>ParseSctpPacket := \<lambda>d. Some (ex_packet, [Sctp_Shutdown 0 8 999])\<rparr>"
             and wu = "ex_wu WuClient_DataChannelOpen 1 8" and client = 0
             and sctpPacket = ex_packet and f = 0 and l = 8 and t = 999 and buf = "[1]"]
  by simp

section \<open>Sending application data\<close>

text \<open>
  Claim C6. For a client whose state is not \<open>DataChannelOpen\<close>, \<open>WuSendText\<close> and
  \<open>WuSendBinary\<close> return -1 and leave the whole engine unchanged (the client's
  \<open>tsn\<close> and the written output included); for a client in \<open>DataChannelOpen\<close> they
  return 0.
\<close>

theorem send_refused_unless_data_channel_open:
  "(state (mem wu client) \<noteq> WuClient_DataChannelOpen \<longrightarrow>
      WuSendText ext wu client payload = (- 1, wu) \<and>
      WuSendBinary ext wu client payload = (- 1, wu))
   \<and> (state (mem wu client) = WuClient_DataChannelOpen \<longrightarrow>
      fst (WuSendText ext wu client payload) = 0 \<and>
      fst (WuSendBinary ext wu client payload) = 0)"
  by (cases "state (mem wu client)")
     (simp_all add: WuSendText_def WuSendBinary_def WuSendData_def Let_def)

theorem send_refused_unless_data_channel_open_witness:
  "state (mem (ex_wu WuClient_SCTPEstablished 1 8) 0) \<noteq> WuClient_DataChannelOpen
   \<and> WuSendText ex_ext (ex_wu WuClient_SCTPEstablished 1 8) 0 [104, 105]
       = (- 1, ex_wu WuClient_SCTPEstablished 1 8)
   \<and> WuSendBinary ex_ext (ex_wu WuClient_SCTPEstablished 1 8) 0 [104, 105]
       = (- 1, ex_wu WuClient_SCTPEstablished 1 8)
   \<and> state (mem (ex_wu WuClient_DataChannelOpen 1 8) 0) = WuClient_DataChannelOpen
   \<and> fst (WuSendText ex_ext (ex_wu WuClient_DataChannelOpen 1 8) 0 [104, 105]) = 0
   \<and> fst (WuSendBinary ex_ext (ex_wu WuClient_DataChannelOpen 1 8) 0 [104, 105]) = 0"
  using send_refused_unless_data_channel_open
          [where wu = "ex_wu WuClient_SCTPEstablished 1 8" and client = 0 and ext = ex_ext
             and payload = "[104, 105]"]
        send_refused_unless_data_channel_open
          [where wu = "ex_wu WuClient_DataChannelOpen 1 8" and client = 0 and ext = ex_ext
             and payload = "[104, 105]"]
  by (simp add: ex_wu_def ex_client_def)

section \<open>DATA\<close>

text \<open>
  Claim C4 as stated fails: a DATA chunk processed for a client in \<open>WaitingRemoval\<close>
  (an ABORT was received, the embedder has not removed the client yet) updates
  \<open>remoteTsn\<close> and delivers its text payload, but the SACK is stopped by the guard of
  \<open>TLSSend\<close>: nothing is written.
\<close>

theorem data_chunk_in_waiting_removal_gets_no_sack:
  "remoteTsn (mem (snd (WuHandleSctp_chunk ex_ext (ex_wu WuClient_WaitingRemoval 1 8) 0 ex_packet
                          (ex_data 1005 50 [104]))) 0) = 1005
   \<and> items (pendingEvents (snd (WuHandleSctp_chunk ex_ext (ex_wu WuClient_WaitingRemoval 1 8) 0
                                   ex_packet (ex_data 1005 50 [104]))))
       = [WuEvent_TextData 0 [104]]
   \<and> udpOut (snd (WuHandleSctp_chunk ex_ext (ex_wu WuClient_WaitingRemoval 1 8) 0 ex_packet
                     (ex_data 1005 50 [104]))) = []"
  by (simp add: ex_data_def WuHandleSctp_Data_def Let_def WuSendSctp_def TLSSend_udpOut
        TLSSend_mem TLSSend_other WuPushEvent_def WuQueuePush_def Max_u32_def
        DCProto_String_def DCProto_Control_def client_update_def send_allowed_def
        ex_wu_def ex_client_def)

text \<open>
  Claim C4, amended. Processing a DATA chunk sets \<open>remoteTsn\<close> to the maximum of its
  old value and the chunk's TSN and resets \<open>ttl\<close> to 8, whatever the PPID, and goes on
  with the next chunk. When the client, after the routing of the chunk, may be sent to
  (state \<open>DTLSHandshake\<close> or later, handshake finished), what is written is the pending
  DTLS output, the DCEP ACK when the chunk is a DCEP OPEN, and then exactly one SACK
  whose cumulative TSN ack is the updated \<open>remoteTsn\<close>, with no gap-ack block and no
  duplicate TSN. Otherwise nothing is written.
\<close>

theorem data_chunk_updates_and_sack:
  "fst (WuHandleSctp_chunk ext wu client sctpPacket (Sctp_Data f l d))
   \<and> remoteTsn (mem (snd (WuHandleSctp_chunk ext wu client sctpPacket (Sctp_Data f l d))) client)
       = max (remoteTsn (mem wu client)) (SctpDataChunk.tsn d)
   \<and> ttl (mem (snd (WuHandleSctp_chunk ext wu client sctpPacket (Sctp_Data f l d))) client) = 8
   \<and> (send_allowed (mem (snd (WuHandleSctp_chunk ext wu client sctpPacket (Sctp_Data f l d))) client) \<longrightarrow>
        new_writes wu (snd (WuHandleSctp_chunk ext wu client sctpPacket (Sctp_Data f l d)))
          = pending_writes wu client @
            (if is_dcep_open d
             then [sctp_write client
                     (reply_header sctpPacket (sctpVerificationTag (mem wu client)))
                     (dcep_ack_chunk ext (WuClient.tsn (mem wu client)) (streamId d))]
             else []) @
            [sctp_write client (reply_header sctpPacket (sctpVerificationTag (mem wu client)))
               (sack_chunk ext (max (remoteTsn (mem wu client)) (SctpDataChunk.tsn d)))])
   \<and> (\<not> send_allowed (mem (snd (WuHandleSctp_chunk ext wu client sctpPacket (Sctp_Data f l d))) client) \<longrightarrow>
        udpOut (snd (WuHandleSctp_chunk ext wu client sctpPacket (Sctp_Data f l d))) = udpOut wu)"
proof (cases "is_dcep_open d")
  case True
  then show ?thesis
    by (simp add: WuHandleSctp_Data_def Let_def WuSendSctp_def TLSSend_udpOut TLSSend_mem
        Open_udpOut Open_mem is_dcep_open_def Max_u32_max
        client_update_def send_allowed_def pending_writes_def sctp_write_def sack_chunk_def
        new_writes_def kMaxClientTtl_def reply_header_def)
next
  case False
  then show ?thesis
    by (simp add: WuHandleSctp_Data_def Let_def WuSendSctp_def TLSSend_udpOut TLSSend_mem
        WuPushEvent_simps is_dcep_open_def Max_u32_max DCProto_distinct
        client_update_def send_allowed_def pending_writes_def sctp_write_def sack_chunk_def
        new_writes_def kMaxClientTtl_def reply_header_def)
qed

theorem data_chunk_updates_and_sack_witness:
  "send_allowed (mem (snd (WuHandleSctp_chunk ex_ext (ex_wu WuClient_DTLSHandshake 1 8) 0 ex_packet
                          (ex_data 1005 53 [3]))) 0)
   \<and> new_writes (ex_wu WuClient_DTLSHandshake 1 8)
        (snd (WuHandleSctp_chunk ex_ext (ex_wu WuClient_DTLSHandshake 1 8) 0 ex_packet
                (ex_data 1005 53 [3])))
      = [sctp_write 0 (reply_header ex_packet 0x11) (dcep_ack_chunk ex_ext 1 1),
         sctp_write 0 (reply_header ex_packet 0x11) (sack_chunk ex_ext 1005)]
   \<and> \<not> send_allowed (mem (snd (WuHandleSctp_chunk ex_ext (ex_wu WuClient_WaitingRemoval 1 8) 0
                  ex_packet (ex_data 1005 77 [3]))) 0)
   \<and> udpOut (snd (WuHandleSctp_chunk ex_ext (ex_wu WuClient_WaitingRemoval 1 8) 0
                  ex_packet (ex_data 1005 77 [3]))) = []"
  using data_chunk_updates_and_sack [where ext = ex_ext and wu = "ex_wu WuClient_DTLSHandshake 1 8" and client = 0
              and sctpPacket = ex_packet and f = 7 and l = 17
              and d = "\<lparr>SctpDataChunk.tsn = 1005, streamId = 1, streamSeq = 0, protoId = 53,
                        userData = [3]\<rparr>"]
        data_chunk_updates_and_sack [where ext = ex_ext and wu = "ex_wu WuClient_WaitingRemoval 1 8" and client = 0
              and sctpPacket = ex_packet and f = 7 and l = 17
              and d = "\<lparr>SctpDataChunk.tsn = 1005, streamId = 1, streamSeq = 0, protoId = 77,
                        userData = [3]\<rparr>"]
  by (simp add: model_defs notion_defs example_defs)

section \<open>SACK\<close>

text \<open>
  Claim C5 as stated fails: a SACK with one gap-ack block processed for a client in
  \<open>WaitingRemoval\<close> emits no FORWARD-TSN; the engine is left as it was.
\<close>

theorem sack_gap_in_waiting_removal_emits_nothing:
  "udpOut (snd (WuHandleSctp_chunk ex_ext (ex_wu WuClient_WaitingRemoval 1 8) 0 ex_packet
                  (ex_sack 1))) = []
   \<and> snd (WuHandleSctp_chunk ex_ext (ex_wu WuClient_WaitingRemoval 1 8) 0 ex_packet (ex_sack 1))
       = ex_wu WuClient_WaitingRemoval 1 8"
  by (simp add: ex_sack_def WuHandleSctp_Sack_def Let_def WuSendSctp_def TLSSend_def
        ex_wu_def ex_client_def)

text \<open>
  Claim C5, amended. A SACK chunk with at least one gap-ack block, processed for a
  client that may be sent to, writes the pending DTLS output and then exactly one
  FORWARD-TSN whose new cumulative TSN is the client's current \<open>tsn\<close>, which stays as it
  is. For a client that may not be sent to, and for a SACK without gap-ack blocks, the
  engine is left unchanged.
\<close>

theorem sack_gap_forward_tsn:
  "fst (WuHandleSctp_chunk ext wu client sctpPacket (Sctp_Sack f l sack))
   \<and> (0 < numGapAckBlocks sack \<and> send_allowed (mem wu client) \<longrightarrow>
        new_writes wu (snd (WuHandleSctp_chunk ext wu client sctpPacket (Sctp_Sack f l sack)))
          = pending_writes wu client @
            [sctp_write client (reply_header sctpPacket (sctpVerificationTag (mem wu client)))
               (SctpChunk_ForwardTsn 0 (SctpChunkLength ext 4) (WuClient.tsn (mem wu client)))]
        \<and> WuClient.tsn (mem (snd (WuHandleSctp_chunk ext wu client sctpPacket
                                      (Sctp_Sack f l sack))) client)
            = WuClient.tsn (mem wu client))
   \<and> (0 < numGapAckBlocks sack \<and> \<not> send_allowed (mem wu client) \<longrightarrow>
        snd (WuHandleSctp_chunk ext wu client sctpPacket (Sctp_Sack f l sack)) = wu)
   \<and> (numGapAckBlocks sack = 0 \<longrightarrow>
        snd (WuHandleSctp_chunk ext wu client sctpPacket (Sctp_Sack f l sack)) = wu)"
  by (simp add: WuHandleSctp_Sack_def Let_def WuSendSctp_def TLSSend_udpOut TLSSend_mem
        TLSSend_blocked new_writes_def sctp_write_def)

theorem sack_gap_forward_tsn_witness:
  "(0::u16) < 1 \<and> send_allowed (mem (ex_wu WuClient_DataChannelOpen 41 8) 0)
   \<and> new_writes (ex_wu WuClient_DataChannelOpen 41 8)
         (snd (WuHandleSctp_chunk ex_ext (ex_wu WuClient_DataChannelOpen 41 8) 0 ex_packet
                 (Sctp_Sack 0 16 \<lparr>cumulativeTsnAck = 0, advRecvWindow = 0x20000,
                    numGapAckBlocks = 1, numDupTsn = 0\<rparr>)))
       = [sctp_write 0 (reply_header ex_packet 0x11) (SctpChunk_ForwardTsn 0 8 41)]
   \<and> snd (WuHandleSctp_chunk ex_ext (ex_wu WuClient_DataChannelOpen 41 8) 0 ex_packet
                 (Sctp_Sack 0 16 \<lparr>cumulativeTsnAck = 0, advRecvWindow = 0x20000,
                    numGapAckBlocks = 0, numDupTsn = 0\<rparr>))
       = ex_wu WuClient_DataChannelOpen 41 8
   \<and> \<not> send_allowed (mem (ex_wu WuClient_WaitingRemoval 41 8) 0)
   \<and> snd (WuHandleSctp_chunk ex_ext (ex_wu WuClient_WaitingRemoval 41 8) 0 ex_packet
                 (Sctp_Sack 0 16 \<lparr>cumulativeTsnAck = 0, advRecvWindow = 0x20000,
                    numGapAckBlocks = 1, numDupTsn = 0\<rparr>))
       = ex_wu WuClient_WaitingRemoval 41 8"
  using sack_gap_forward_tsn [where ext = ex_ext and wu = "ex_wu WuClient_DataChannelOpen 41 8" and client = 0
              and sctpPacket = ex_packet and f = 0 and l = 16
              and sack = "\<lparr>cumulativeTsnAck = 0, advRecvWindow = 0x20000,
                    numGapAckBlocks = 1, numDupTsn = 0\<rparr>"]
        sack_gap_forward_tsn [where ext = ex_ext and wu = "ex_wu WuClient_DataChannelOpen 41 8" and client = 0
              and sctpPacket = ex_packet and f = 0 and l = 16
              and sack = "\<lparr>cumulativeTsnAck = 0, advRecvWindow = 0x20000,
                    numGapAckBlocks = 0, numDupTsn = 0\<rparr>"]
        sack_gap_forward_tsn [where ext = ex_ext and wu = "ex_wu WuClient_WaitingRemoval 41 8" and client = 0
              and sctpPacket = ex_packet and f = 0 and l = 16
              and sack = "\<lparr>cumulativeTsnAck = 0, advRecvWindow = 0x20000,
                    numGapAckBlocks = 1, numDupTsn = 0\<rparr>"]
  by (simp add: send_allowed_def pending_writes_def ex_wu_def ex_client_def ex_ext_def)

section \<open>The tick and the event queue\<close>

lemma WuUpdateClient_eq:
  "WuUpdateClient ext client w =
     w\<lparr>mem := (mem w)(client := countdown_client ext (dt w) (mem w client)),
       udpOut := udpOut w @ tick_writes ext w (dt w) (time w) client\<rparr>"
  by (simp add: WuUpdateClient_def WuSendHeartbeat_def WuSendSctp_def TLSSend_def
        SSL_write_def WuClientSendPendingDTLS_def client_update_def Let_def
        countdown_client_def tick_writes_def pending_writes_def sctp_write_def
        send_allowed_def heartbeatInterval_def)

lemma tick_writes_cong:
  "mem w' client = mem w client \<Longrightarrow> Wu.port w' = Wu.port w \<Longrightarrow>
   tick_writes ext w' d t client = tick_writes ext w d t client"
  by (simp add: tick_writes_def pending_writes_def)

lemma fold_WuUpdateClient_eq:
  "distinct cs \<Longrightarrow>
   fold (WuUpdateClient ext) cs w =
     w\<lparr>mem := (\<lambda>p. if p \<in> set cs then countdown_client ext (dt w) (mem w p) else mem w p),
       udpOut := udpOut w @ concat (map (tick_writes ext w (dt w) (time w)) cs)\<rparr>"
proof (induction cs arbitrary: w)
  case Nil
  then show ?case by simp
next
  case (Cons c cs)
  let ?w1 = "WuUpdateClient ext c w"
  from Cons.prems have d: "distinct cs" and nin: "c \<notin> set cs" by simp_all
  have w1: "?w1 = w\<lparr>mem := (mem w)(c := countdown_client ext (dt w) (mem w c)),
                     udpOut := udpOut w @ tick_writes ext w (dt w) (time w) c\<rparr>"
    by (rule WuUpdateClient_eq)
  have same: "map (tick_writes ext ?w1 (dt ?w1) (time ?w1)) cs
                = map (tick_writes ext w (dt w) (time w)) cs"
  proof (rule map_cong [OF refl])
    fix p assume "p \<in> set cs"
    with nin have "p \<noteq> c" by auto
    then show "tick_writes ext ?w1 (dt ?w1) (time ?w1) p = tick_writes ext w (dt w) (time w) p"
      by (simp add: w1 tick_writes_def pending_writes_def)
  qed
  have memeq: "(\<lambda>p. if p \<in> set cs then countdown_client ext (dt ?w1) (mem ?w1 p) else mem ?w1 p)
             = (\<lambda>p. if p \<in> set (c # cs) then countdown_client ext (dt w) (mem w p) else mem w p)"
    using nin by (auto simp add: w1 fun_eq_iff)
  have "fold (WuUpdateClient ext) (c # cs) w = fold (WuUpdateClient ext) cs ?w1" by simp
  also have "\<dots> = ?w1\<lparr>mem := (\<lambda>p. if p \<in> set cs then countdown_client ext (dt ?w1) (mem ?w1 p)
                                  else mem ?w1 p),
                       udpOut := udpOut ?w1 @ concat (map (tick_writes ext ?w1 (dt ?w1) (time ?w1)) cs)\<rparr>"
    by (rule Cons.IH [OF d])
  also have "\<dots> = w\<lparr>mem := (\<lambda>p. if p \<in> set (c # cs) then countdown_client ext (dt w) (mem w p)
                                else mem w p),
                     udpOut := udpOut w @ concat (map (tick_writes ext w (dt w) (time w)) (c # cs))\<rparr>"
    unfolding same memeq by (simp add: w1)
  finally show ?case .
qed

lemma fold_WuUpdateClient_frame:
  "pendingEvents (fold (WuUpdateClient ext) cs w) = pendingEvents w
   \<and> clients (fold (WuUpdateClient ext) cs w) = clients w
   \<and> arena (fold (WuUpdateClient ext) cs w) = arena w
   \<and> rng (fold (WuUpdateClient ext) cs w) = rng w
   \<and> time (fold (WuUpdateClient ext) cs w) = time w
   \<and> dt (fold (WuUpdateClient ext) cs w) = dt w
   \<and> clientPool (fold (WuUpdateClient ext) cs w) = clientPool w"
  by (induction cs arbitrary: w) (simp_all add: WuUpdateClient_eq)

lemma fold_WuUpdateClient_state:
  "state (mem (fold (WuUpdateClient ext) cs w) p) = state (mem w p)
   \<and> WuClient.tsn (mem (fold (WuUpdateClient ext) cs w) p) = WuClient.tsn (mem w p)"
  by (induction cs arbitrary: w) (simp_all add: WuUpdateClient_eq countdown_client_def)

lemma client_expired_pendingEvents:
  "client_expired (w\<lparr>pendingEvents := q\<rparr>) = client_expired w"
  by (simp add: client_expired_def fun_eq_iff)

lemma purge_fold:
  "length (items (pendingEvents w)) + length (filter (client_expired w) cs)
     \<le> capacity (pendingEvents w) \<Longrightarrow>
   fold (\<lambda>client w. if client_expired w client
                      then WuPushEvent w (WuEvent_ClientLeave client) else w) cs w
   = w\<lparr>pendingEvents := (pendingEvents w)
         \<lparr>items := items (pendingEvents w)
                    @ map WuEvent_ClientLeave (filter (client_expired w) cs)\<rparr>\<rparr>"
proof (induction cs arbitrary: w)
  case Nil
  then show ?case by simp
next
  case (Cons c cs)
  show ?case
  proof (cases "client_expired w c")
    case False
    with Cons show ?thesis by simp
  next
    case True
    let ?w1 = "WuPushEvent w (WuEvent_ClientLeave c)"
    from True Cons.prems have room: "length (items (pendingEvents w)) < capacity (pendingEvents w)"
      by simp
    have exp: "client_expired ?w1 = client_expired w"
      by (simp add: client_expired_def WuPushEvent_def fun_eq_iff)
    have its: "items (pendingEvents ?w1) = items (pendingEvents w) @ [WuEvent_ClientLeave c]"
      using room by (simp add: WuPushEvent_def WuQueuePush_def)
    have cap: "capacity (pendingEvents ?w1) = capacity (pendingEvents w)"
      by (simp add: WuPushEvent_def WuQueuePush_def)
    have "length (items (pendingEvents ?w1)) + length (filter (client_expired ?w1) cs)
            \<le> capacity (pendingEvents ?w1)"
      using Cons.prems True by (simp add: exp its cap)
    from Cons.IH [OF this] True room show ?thesis
      by (simp add: client_expired_pendingEvents WuPushEvent_def WuQueuePush_def)
  qed
qed

lemma WuPurgeDeadClients_eq:
  "length (items (pendingEvents w)) + length (filter (client_expired w) (clients w))
     \<le> capacity (pendingEvents w) \<Longrightarrow>
   WuPurgeDeadClients w
   = w\<lparr>pendingEvents := (pendingEvents w)
         \<lparr>items := items (pendingEvents w)
                    @ map WuEvent_ClientLeave (filter (client_expired w) (clients w))\<rparr>\<rparr>"
  unfolding WuPurgeDeadClients_def by (rule purge_fold)

lemma purge_fold_frame:
  "mem (fold (\<lambda>client w. if client_expired w client
                      then WuPushEvent w (WuEvent_ClientLeave client) else w) cs w) = mem w
   \<and> clients (fold (\<lambda>client w. if client_expired w client
                      then WuPushEvent w (WuEvent_ClientLeave client) else w) cs w) = clients w
   \<and> arena (fold (\<lambda>client w. if client_expired w client
                      then WuPushEvent w (WuEvent_ClientLeave client) else w) cs w) = arena w
   \<and> time (fold (\<lambda>client w. if client_expired w client
                      then WuPushEvent w (WuEvent_ClientLeave client) else w) cs w) = time w
   \<and> dt (fold (\<lambda>client w. if client_expired w client
                      then WuPushEvent w (WuEvent_ClientLeave client) else w) cs w) = dt w
   \<and> udpOut (fold (\<lambda>client w. if client_expired w client
                      then WuPushEvent w (WuEvent_ClientLeave client) else w) cs w) = udpOut w
   \<and> rng (fold (\<lambda>client w. if client_expired w client
                      then WuPushEvent w (WuEvent_ClientLeave client) else w) cs w) = rng w"
  by (induction cs arbitrary: w) (simp_all add: WuPushEvent_def)

lemma WuPurgeDeadClients_frame:
  "mem (WuPurgeDeadClients w) = mem w"
  "clients (WuPurgeDeadClients w) = clients w"
  "arena (WuPurgeDeadClients w) = arena w"
  "time (WuPurgeDeadClients w) = time w"
  "dt (WuPurgeDeadClients w) = dt w"
  "udpOut (WuPurgeDeadClients w) = udpOut w"
  "rng (WuPurgeDeadClients w) = rng w"
  unfolding WuPurgeDeadClients_def by (simp_all add: purge_fold_frame)

lemma WuUpdateClients_frame:
  "pendingEvents (WuUpdateClients ext wu t) = pendingEvents wu"
  "clients (WuUpdateClients ext wu t) = clients wu"
  "arena (WuUpdateClients ext wu t) = arena wu"
  "rng (WuUpdateClients ext wu t) = rng wu"
  "time (WuUpdateClients ext wu t) = t"
  "dt (WuUpdateClients ext wu t) = double_sub ext t (time wu)"
  by (simp_all add: WuUpdateClients_def Let_def fold_WuUpdateClient_frame)

lemma WuUpdateClients_state:
  "state (mem (WuUpdateClients ext wu t) p) = state (mem wu p)"
  "WuClient.tsn (mem (WuUpdateClients ext wu t) p) = WuClient.tsn (mem wu p)"
  by (simp_all add: WuUpdateClients_def Let_def fold_WuUpdateClient_state)

lemma tick_writes_clock:
  "tick_writes ext (w\<lparr>dt := a, time := b\<rparr>) d t = tick_writes ext w d t"
  by (simp add: fun_eq_iff tick_writes_def pending_writes_def)

lemma WuUpdateClients_eq:
  "distinct (clients wu) \<Longrightarrow>
   WuUpdateClients ext wu t =
     wu\<lparr>time := t, dt := double_sub ext t (time wu),
        mem := (\<lambda>p. if p \<in> set (clients wu)
                    then countdown_client ext (double_sub ext t (time wu)) (mem wu p)
                    else mem wu p),
        udpOut := udpOut wu
                  @ concat (map (tick_writes ext wu (double_sub ext t (time wu)) t) (clients wu))\<rparr>"
proof -
  assume d: "distinct (clients wu)"
  let ?w1 = "wu\<lparr>dt := double_sub ext t (time wu), time := t\<rparr>"
  have "fold (WuUpdateClient ext) (clients wu) ?w1 =
     ?w1\<lparr>mem := (\<lambda>p. if p \<in> set (clients wu) then countdown_client ext (dt ?w1) (mem ?w1 p)
                      else mem ?w1 p),
         udpOut := udpOut ?w1 @ concat (map (tick_writes ext ?w1 (dt ?w1) (time ?w1)) (clients wu))\<rparr>"
    by (rule fold_WuUpdateClient_eq [OF d])
  then show ?thesis
    by (simp add: WuUpdateClients_def Let_def tick_writes_clock cong: if_cong)
qed

lemma client_expired_arena: "client_expired (w\<lparr>arena := a\<rparr>) = client_expired w"
  by (simp add: client_expired_def fun_eq_iff)

lemma tick_eq:
  assumes empty: "items (pendingEvents wu) = []"
    and d: "distinct (clients wu)"
    and room: "length (filter (\<lambda>c. leave_due ext (double_sub ext t (time wu)) (mem wu c))
                         (clients wu)) \<le> capacity (pendingEvents wu)"
  shows "WuUpdate ext wu t =
     (0, None,
      wu\<lparr>time := t, dt := double_sub ext t (time wu),
         arena := (arena wu)\<lparr>arenaUsed := 0\<rparr>,
         mem := (\<lambda>p. if p \<in> set (clients wu)
                     then countdown_client ext (double_sub ext t (time wu)) (mem wu p)
                     else mem wu p),
         udpOut := udpOut wu
                   @ concat (map (tick_writes ext wu (double_sub ext t (time wu)) t) (clients wu)),
         pendingEvents := (pendingEvents wu)
           \<lparr>items := map WuEvent_ClientLeave
                       (filter (\<lambda>c. leave_due ext (double_sub ext t (time wu)) (mem wu c))
                          (clients wu))\<rparr>\<rparr>)"
proof -
  let ?d = "double_sub ext t (time wu)"
  let ?w1 = "WuUpdateClients ext wu t"
  let ?w2 = "?w1\<lparr>arena := WuArenaReset (arena ?w1)\<rparr>"
  have w1: "?w1 = wu\<lparr>time := t, dt := ?d,
        mem := (\<lambda>p. if p \<in> set (clients wu) then countdown_client ext ?d (mem wu p)
                    else mem wu p),
        udpOut := udpOut wu @ concat (map (tick_writes ext wu ?d t) (clients wu))\<rparr>"
    by (rule WuUpdateClients_eq [OF d])
  have exp: "filter (client_expired ?w2) (clients ?w2)
               = filter (\<lambda>c. leave_due ext ?d (mem wu c)) (clients wu)"
  proof -
    have "filter (client_expired ?w2) (clients wu)
               = filter (\<lambda>c. leave_due ext ?d (mem wu c)) (clients wu)"
      by (rule filter_cong [OF refl])
         (simp add: client_expired_arena client_expired_def leave_due_def w1
            countdown_client_def)
    then show ?thesis by (simp add: WuUpdateClients_frame)
  qed
  have "length (items (pendingEvents ?w2)) + length (filter (client_expired ?w2) (clients ?w2))
          \<le> capacity (pendingEvents ?w2)"
    unfolding exp using empty room by (simp add: WuUpdateClients_frame)
  from WuPurgeDeadClients_eq [OF this]
  have "WuPurgeDeadClients ?w2
          = ?w2\<lparr>pendingEvents := (pendingEvents ?w2)
                 \<lparr>items := items (pendingEvents ?w2)
                    @ map WuEvent_ClientLeave (filter (\<lambda>c. leave_due ext ?d (mem wu c)) (clients wu))\<rparr>\<rparr>"
    unfolding exp .
  then show ?thesis
    using empty
    by (simp add: WuUpdate_def WuQueuePop_def Let_def WuUpdateClients_frame WuArenaReset_def w1)
qed

lemmas tick_defs =
  WuUpdate_def WuUpdateClients_def WuUpdateClient_def WuSendHeartbeat_def
  WuPurgeDeadClients_def client_expired_def WuArenaReset_def

lemma ex_run1_eval:
  "fst (WuUpdate ex_ext (ex_wu WuClient_DataChannelOpen 1 8) 9) = 0"
  "items (pendingEvents ex_run1) = [WuEvent_ClientLeave 0]"
  "mem ex_run1 0 = ex_client WuClient_DataChannelOpen 1 (- 1)"
  "clients ex_run1 = [0]"
  "capacity (pendingEvents ex_run1) = 1024"
  "time ex_run1 = 9"
  by (simp_all add: ex_run1_def tick_defs model_defs notion_defs example_defs)






lemma Update_pop:
  "items (pendingEvents wu) = e # es \<Longrightarrow>
   WuUpdate ext wu t = (1, Some e, wu\<lparr>pendingEvents := (pendingEvents wu)\<lparr>items := es\<rparr>\<rparr>)"
  by (simp add: WuUpdate_def WuQueuePop_def)




text \<open>
  Claim C8. With an event pending, \<open>WuUpdate\<close> returns 1 and the oldest event, takes
  exactly that event off the queue and changes nothing else (no clock step, no
  countdown, no flush, no arena reset, no walk over the clients). With the queue empty
  it returns 0 and no event and runs the tick, which sets the clock and the tick
  length and resets the arena. For a client array without repetitions and a queue with
  room, the engine after the tick is given in full: every client of the array has its
  ttl and its heartbeat countdown reduced by the tick length (the heartbeat countdown
  restarting at 4 when it has run out) and its outgoing BIO emptied, the pending DTLS
  output of each client and the HEARTBEAT of each client that is due are written in
  the order of the array, the arena is empty, and the queue holds a \<open>ClientLeave\<close>
  for each client that the walk finds expired or in \<open>WaitingRemoval\<close>; everything else
  is unchanged.
\<close>

theorem update_pops_one_event_or_ticks:
  "(items (pendingEvents wu) = e # es \<longrightarrow>
      WuUpdate ext wu t = (1, Some e, wu\<lparr>pendingEvents := (pendingEvents wu)\<lparr>items := es\<rparr>\<rparr>))
   \<and> (items (pendingEvents wu) = [] \<longrightarrow>
        fst (WuUpdate ext wu t) = 0
        \<and> fst (snd (WuUpdate ext wu t)) = None
        \<and> snd (snd (WuUpdate ext wu t))
            = WuPurgeDeadClients ((WuUpdateClients ext wu t)\<lparr>arena := WuArenaReset (arena wu)\<rparr>)
        \<and> time (snd (snd (WuUpdate ext wu t))) = t
        \<and> dt (snd (snd (WuUpdate ext wu t))) = double_sub ext t (time wu)
        \<and> arenaUsed (arena (snd (snd (WuUpdate ext wu t)))) = 0)
   \<and> (items (pendingEvents wu) = [] \<and> distinct (clients wu)
        \<and> length (filter (\<lambda>c. leave_due ext (double_sub ext t (time wu)) (mem wu c))
                     (clients wu)) \<le> capacity (pendingEvents wu) \<longrightarrow>
        WuUpdate ext wu t =
          (0, None,
           wu\<lparr>time := t, dt := double_sub ext t (time wu),
              arena := (arena wu)\<lparr>arenaUsed := 0\<rparr>,
              mem := (\<lambda>p. if p \<in> set (clients wu)
                          then countdown_client ext (double_sub ext t (time wu)) (mem wu p)
                          else mem wu p),
              udpOut := udpOut wu
                        @ concat (map (tick_writes ext wu (double_sub ext t (time wu)) t)
                                    (clients wu)),
              pendingEvents := (pendingEvents wu)
                \<lparr>items := map WuEvent_ClientLeave
                            (filter (\<lambda>c. leave_due ext (double_sub ext t (time wu)) (mem wu c))
                               (clients wu))\<rparr>\<rparr>))"
proof -
  have tickpart: "fst (WuUpdate ext wu t) = 0
        \<and> fst (snd (WuUpdate ext wu t)) = None
        \<and> snd (snd (WuUpdate ext wu t))
            = WuPurgeDeadClients ((WuUpdateClients ext wu t)\<lparr>arena := WuArenaReset (arena wu)\<rparr>)
        \<and> time (snd (snd (WuUpdate ext wu t))) = t
        \<and> dt (snd (snd (WuUpdate ext wu t))) = double_sub ext t (time wu)
        \<and> arenaUsed (arena (snd (snd (WuUpdate ext wu t)))) = 0"
    if "items (pendingEvents wu) = []"
    using that
    by (simp add: WuUpdate_def WuQueuePop_def Let_def WuPurgeDeadClients_frame
          WuUpdateClients_frame WuArenaReset_def)
  from Update_pop [of wu e es ext t] tickpart tick_eq [of wu ext t] show ?thesis by blast
qed

theorem update_pops_one_event_or_ticks_witness:
  "items (pendingEvents ex_run1) = [WuEvent_ClientLeave 0]
   \<and> WuUpdate ex_ext ex_run1 10
       = (1, Some (WuEvent_ClientLeave 0),
          ex_run1\<lparr>pendingEvents := (pendingEvents ex_run1)\<lparr>items := []\<rparr>\<rparr>)
   \<and> items (pendingEvents (ex_wu WuClient_DataChannelOpen 1 8)) = []
   \<and> distinct (clients (ex_wu WuClient_DataChannelOpen 1 8))
   \<and> fst (WuUpdate ex_ext (ex_wu WuClient_DataChannelOpen 1 8) 9) = 0
   \<and> arenaUsed (arena (snd (snd (WuUpdate ex_ext (ex_wu WuClient_DataChannelOpen 1 8) 9)))) = 0
   \<and> ttl (mem (snd (snd (WuUpdate ex_ext (ex_wu WuClient_DataChannelOpen 1 8) 9))) 0) = - 1
   \<and> nextHeartbeat (mem (snd (snd (WuUpdate ex_ext (ex_wu WuClient_DataChannelOpen 1 8) 9))) 0)
       = 4
   \<and> udpOut (snd (snd (WuUpdate ex_ext (ex_wu WuClient_DataChannelOpen 1 8) 9)))
       = [sctp_write 0 \<lparr>sourcePort = 9555, destionationPort = 5000, verificationTag = 0x11\<rparr>
            (Sctp_Heartbeat 7 16 (replicate 8 0))]
   \<and> items (pendingEvents (snd (snd (WuUpdate ex_ext (ex_wu WuClient_DataChannelOpen 1 8) 9))))
       = [WuEvent_ClientLeave 0]"
proof -
  have hyp: "items (pendingEvents (ex_wu WuClient_DataChannelOpen 1 8)) = []"
    "distinct (clients (ex_wu WuClient_DataChannelOpen 1 8))"
    "clients (ex_wu WuClient_DataChannelOpen 1 8) = [0]"
    "capacity (pendingEvents (ex_wu WuClient_DataChannelOpen 1 8)) = 1024"
    "udpOut (ex_wu WuClient_DataChannelOpen 1 8) = []"
    "leave_due ex_ext (double_sub ex_ext 9 (time (ex_wu WuClient_DataChannelOpen 1 8)))
         (mem (ex_wu WuClient_DataChannelOpen 1 8) 0)"
    "ttl (countdown_client ex_ext (double_sub ex_ext 9 (time (ex_wu WuClient_DataChannelOpen 1 8)))
         (mem (ex_wu WuClient_DataChannelOpen 1 8) 0)) = - 1"
    "nextHeartbeat (countdown_client ex_ext
         (double_sub ex_ext 9 (time (ex_wu WuClient_DataChannelOpen 1 8)))
         (mem (ex_wu WuClient_DataChannelOpen 1 8) 0)) = 4"
    "tick_writes ex_ext (ex_wu WuClient_DataChannelOpen 1 8)
         (double_sub ex_ext 9 (time (ex_wu WuClient_DataChannelOpen 1 8))) 9 0
       = [sctp_write 0 \<lparr>sourcePort = 9555, destionationPort = 5000, verificationTag = 0x11\<rparr>
            (Sctp_Heartbeat 7 16 (replicate 8 0))]"
    by (simp_all add: leave_due_def countdown_client_def tick_writes_def notion_defs
          example_defs)
  from update_pops_one_event_or_ticks
         [where ext = ex_ext and wu = ex_run1 and e = "WuEvent_ClientLeave 0" and es = "[]"
            and t = 10]
       update_pops_one_event_or_ticks
         [where ext = ex_ext and wu = "ex_wu WuClient_DataChannelOpen 1 8" and t = 9]
       hyp ex_run1_eval
  show ?thesis by simp
qed

section \<open>STUN binding requests\<close>

lemma WuFindClientByCreds_find:
  "WuFindClientByCreds ext wu (StunPacket.serverUser packet) (StunPacket.remoteUser packet)
     = find (creds_match ext wu packet) (clients wu)"
  by (simp add: WuFindClientByCreds_def creds_match_def [abs_def])

lemma WuHandleStun_creds:
  "WuClient.serverUser (mem (WuHandleStun ext wu packet remote) p) = WuClient.serverUser (mem wu p)"
  "WuClient.remoteUser (mem (WuHandleStun ext wu packet remote) p) = WuClient.remoteUser (mem wu p)"
  "clients (WuHandleStun ext wu packet remote) = clients wu"
  "WuClient.tsn (mem (WuHandleStun ext wu packet remote) p) = WuClient.tsn (mem wu p)"
  "state (mem (WuHandleStun ext wu packet remote) p) = state (mem wu p)"
  by (simp_all add: WuHandleStun_def client_update_def Let_def split: option.split)

lemma WuHandleStun_lookup:
  "WuFindClientByCreds ext (WuHandleStun ext wu packet remote) sv cl
     = WuFindClientByCreds ext wu sv cl"
  by (simp add: WuFindClientByCreds_def WuHandleStun_creds)

lemma WuHandleStun_binds:
  "WuFindClientByCreds ext wu (StunPacket.serverUser packet) (StunPacket.remoteUser packet)
     = Some client \<Longrightarrow>
   address (mem (WuHandleStun ext wu packet remote) client) = remote
   \<and> localSctpPort (mem (WuHandleStun ext wu packet remote) client) = WuAddress.port remote"
  by (simp add: WuHandleStun_def client_update_def Let_def)

text \<open>
  Claim C10. When the credentials of a parsed binding request match some client of
  the array, the lookup finds a matching client (the first one). For the client the
  lookup finds, the handler sets the bound address to the source address of the
  datagram and \<open>localSctpPort\<close> to its port, and it does so on every request: a
  later request with the same credentials from another source address binds the client
  to that address. A datagram that parses as a STUN request is handled by this
  handler alone.
\<close>

theorem stun_request_rebinds_address:
  "((\<exists>c \<in> set (clients wu). creds_match ext wu packet c) \<longrightarrow>
      (\<exists>client.
         WuFindClientByCreds ext wu (StunPacket.serverUser packet) (StunPacket.remoteUser packet)
           = Some client
         \<and> client \<in> set (clients wu) \<and> creds_match ext wu packet client))
   \<and> (WuFindClientByCreds ext wu (StunPacket.serverUser packet) (StunPacket.remoteUser packet)
         = Some client \<longrightarrow>
        address (mem (WuHandleStun ext wu packet remote) client) = remote
        \<and> localSctpPort (mem (WuHandleStun ext wu packet remote) client) = WuAddress.port remote
        \<and> address (mem (WuHandleStun ext (WuHandleStun ext wu packet remote) packet rebound)
                     client) = rebound
        \<and> localSctpPort (mem (WuHandleStun ext (WuHandleStun ext wu packet remote) packet rebound)
                           client) = WuAddress.port rebound)
   \<and> (ParseStun ext data = Some packet \<longrightarrow>
        WuHandleUDP ext wu remote data = Some (WuHandleStun ext wu packet remote))"
proof -
  have found: "\<exists>client.
         WuFindClientByCreds ext wu (StunPacket.serverUser packet) (StunPacket.remoteUser packet)
           = Some client
         \<and> client \<in> set (clients wu) \<and> creds_match ext wu packet client"
    if "\<exists>c \<in> set (clients wu). creds_match ext wu packet c"
  proof -
    from that have "find (creds_match ext wu packet) (clients wu) \<noteq> None"
      by (auto simp: find_None_iff)
    then obtain client where f: "find (creds_match ext wu packet) (clients wu) = Some client"
      by auto
    then have "client \<in> set (clients wu) \<and> creds_match ext wu packet client"
      by (auto simp: find_Some_iff)
    with f show ?thesis by (simp add: WuFindClientByCreds_find)
  qed
  have bind: "address (mem (WuHandleStun ext wu packet remote) client) = remote
        \<and> localSctpPort (mem (WuHandleStun ext wu packet remote) client) = WuAddress.port remote
        \<and> address (mem (WuHandleStun ext (WuHandleStun ext wu packet remote) packet rebound)
                     client) = rebound
        \<and> localSctpPort (mem (WuHandleStun ext (WuHandleStun ext wu packet remote) packet rebound)
                           client) = WuAddress.port rebound"
    if f: "WuFindClientByCreds ext wu (StunPacket.serverUser packet) (StunPacket.remoteUser packet)
         = Some client"
  proof -
    from f have "WuFindClientByCreds ext (WuHandleStun ext wu packet remote)
                   (StunPacket.serverUser packet) (StunPacket.remoteUser packet) = Some client"
      by (simp add: WuHandleStun_lookup)
    from WuHandleStun_binds [OF f] WuHandleStun_binds [OF this] show ?thesis by simp
  qed
  have udp: "WuHandleUDP ext wu remote data = Some (WuHandleStun ext wu packet remote)"
    if "ParseStun ext data = Some packet"
    using that by (simp add: WuHandleUDP_def)
  from found bind udp show ?thesis by blast
qed

theorem stun_request_rebinds_address_witness:
  "creds_match ex_ext_stun (ex_wu WuClient_DTLSHandshake 1 8) ex_stun 0
   \<and> 0 \<in> set (clients (ex_wu WuClient_DTLSHandshake 1 8))
   \<and> WuFindClientByCreds ex_ext_stun (ex_wu WuClient_DTLSHandshake 1 8)
         (StunPacket.serverUser ex_stun) (StunPacket.remoteUser ex_stun) = Some 0
   \<and> ParseStun ex_ext_stun [0, 1] = Some ex_stun
   \<and> WuHandleUDP ex_ext_stun (ex_wu WuClient_DTLSHandshake 1 8)
         \<lparr>host = 0x0A000002, port = 6000\<rparr> [0, 1]
       = Some (WuHandleStun ex_ext_stun (ex_wu WuClient_DTLSHandshake 1 8) ex_stun
                 \<lparr>host = 0x0A000002, port = 6000\<rparr>)
   \<and> address (mem (WuHandleStun ex_ext_stun (ex_wu WuClient_DTLSHandshake 1 8) ex_stun
                      \<lparr>host = 0x0A000002, port = 6000\<rparr>) 0)
       = \<lparr>host = 0x0A000002, port = 6000\<rparr>
   \<and> localSctpPort
         (mem (WuHandleStun ex_ext_stun
                 (WuHandleStun ex_ext_stun (ex_wu WuClient_DTLSHandshake 1 8) ex_stun
                    \<lparr>host = 0x0A000002, port = 6000\<rparr>)
                 ex_stun \<lparr>host = 0x0A000003, port = 7000\<rparr>) 0)
       = 7000"
  using stun_request_rebinds_address [where ext = ex_ext_stun and wu = "ex_wu WuClient_DTLSHandshake 1 8"
               and packet = ex_stun and client = 0 and data = "[0, 1]"
               and remote = "\<lparr>host = 0x0A000002, port = 6000\<rparr>"
               and rebound = "\<lparr>host = 0x0A000003, port = 7000\<rparr>"]
  by (simp add: creds_match_def WuFindClientByCreds_def ex_ext_stun_def example_defs ex_stun_def)

section \<open>Offers without ICE credentials\<close>

lemma sdp_attribute_None:
  "sdp_attribute name ls = None \<longleftrightarrow> \<not> (\<exists>l \<in> set ls. starts_with name l)"
  by (induction ls) auto

lemma ex_offer_lines: "sdp_lines ex_offer = [''v=0'', ''a=ice-pwd:efgh'']"
  by (simp add: ex_offer_def sdp_lines_def strip_cr_def)

text \<open>
  Claim C7. For an offer that lacks an \<open>a=ice-ufrag\<close> or an \<open>a=ice-pwd\<close>
  attribute, \<open>WuExchangeSDP\<close> returns the status \<open>InvalidSDP\<close> with no client and no
  answer and leaves the whole engine unchanged (the client array and the pool
  included): the offer is checked before a slot is acquired, so the result is never
  \<open>MaxClients\<close>, also when the pool is exhausted.
\<close>

theorem invalid_offer_consumes_no_slot:
  "\<not> has_attribute ''a=ice-ufrag:'' offer \<or> \<not> has_attribute ''a=ice-pwd:'' offer \<longrightarrow>
     WuExchangeSDP ext wu offer
       = (\<lparr>status = WuSDPStatus_InvalidSDP, sdp_client = None, sdp_answer = None,
           sdp_length = 0\<rparr>, wu)"
proof
  assume "\<not> has_attribute ''a=ice-ufrag:'' offer \<or> \<not> has_attribute ''a=ice-pwd:'' offer"
  then have "sdp_attribute ''a=ice-ufrag:'' (sdp_lines offer) = None
             \<or> sdp_attribute ''a=ice-pwd:'' (sdp_lines offer) = None"
    unfolding has_attribute_def sdp_attribute_None .
  then have "ParseSdp offer = None"
    by (auto simp: ParseSdp_def split: option.split)
  then show "WuExchangeSDP ext wu offer
       = (\<lparr>status = WuSDPStatus_InvalidSDP, sdp_client = None, sdp_answer = None,
           sdp_length = 0\<rparr>, wu)"
    by (simp add: WuExchangeSDP_def)
qed

theorem invalid_offer_consumes_no_slot_witness:
  "\<not> has_attribute ''a=ice-ufrag:'' ex_offer
   \<and> WuPoolAcquire (clientPool ((ex_wu WuClient_DTLSHandshake 1 8)\<lparr>clientPool := \<lparr>freeSlots = []\<rparr>\<rparr>))
       = None
   \<and> WuExchangeSDP ex_ext ((ex_wu WuClient_DTLSHandshake 1 8)\<lparr>clientPool := \<lparr>freeSlots = []\<rparr>\<rparr>)
         ex_offer
       = (\<lparr>status = WuSDPStatus_InvalidSDP, sdp_client = None, sdp_answer = None,
           sdp_length = 0\<rparr>,
          (ex_wu WuClient_DTLSHandshake 1 8)\<lparr>clientPool := \<lparr>freeSlots = []\<rparr>\<rparr>)"
  using invalid_offer_consumes_no_slot [where ext = ex_ext
              and wu = "(ex_wu WuClient_DTLSHandshake 1 8)\<lparr>clientPool := \<lparr>freeSlots = []\<rparr>\<rparr>"
              and offer = ex_offer]
  by (simp add: has_attribute_def ex_offer_lines starts_with_def WuPoolAcquire_def)

section \<open>The local TSN\<close>

lemma tsn_step_increases: "(n :: u32) \<noteq> 0xFFFFFFFF \<Longrightarrow> n < n + 1"
proof -
  assume ne: "n \<noteq> 0xFFFFFFFF"
  have "unat n < 2 ^ 32" using unsigned_less [of n, where ?'a = nat] by simp
  moreover have "unat n \<noteq> 2 ^ 32 - 1"
  proof
    assume "unat n = 2 ^ 32 - 1"
    then have "unat n = unat (0xFFFFFFFF :: u32)" by simp
    then have "n = 0xFFFFFFFF" by (simp only: word_unat_eq_iff)
    then show False using ne by simp
  qed
  ultimately have "unat n + 1 < 2 ^ 32" by simp
  then have "unat (n + 1) = unat n + 1" by (simp add: unat_word_ariths)
  then show ?thesis by (simp add: word_less_nat_alt)
qed

lemma tsn_wraps: "(0xFFFFFFFF :: u32) + 1 = 0" by simp

lemma chunk_continue:
  "fst (WuHandleSctp_chunk ext wu client sctpPacket chunk) = (\<not> chunk_stops chunk)"
  by (cases chunk) simp_all

lemma Data_tsn:
  "WuClient.tsn (mem (WuHandleSctp_Data ext wu client sctpPacket d) p)
     = WuClient.tsn (mem wu p) + (if p = client \<and> is_dcep_open d then 1 else 0)"
  by (simp add: WuHandleSctp_Data_def Let_def WuSendSctp_def TLSSend_mem Open_mem
        WuPushEvent_simps is_dcep_open_def DCProto_distinct client_update_def)

lemma chunk_tsn:
  "WuClient.tsn (mem (snd (WuHandleSctp_chunk ext wu client sctpPacket chunk)) p)
     = WuClient.tsn (mem wu p) + (if p = client \<and> chunk_is_dcep_open chunk then 1 else 0)"
  by (cases chunk)
     (simp_all add: Data_tsn WuHandleSctp_Init_def WuHandleSctp_CookieEcho_def
        WuHandleSctp_Heartbeat_def WuHandleSctp_Sack_def Let_def WuSendSctp_def TLSSend_mem
        client_update_def)

lemma chunks_tsn:
  "WuClient.tsn (mem (WuHandleSctp_chunks ext wu client sctpPacket chunks) p)
     = WuClient.tsn (mem wu p) + (if p = client then of_nat (opens_processed chunks) else 0)"
proof (induction chunks arbitrary: wu)
  case Nil
  then show ?case by simp
next
  case (Cons c cs)
  obtain go wu1 where r: "WuHandleSctp_chunk ext wu client sctpPacket c = (go, wu1)"
    by (cases "WuHandleSctp_chunk ext wu client sctpPacket c")
  from r chunk_continue [of ext wu client sctpPacket c] have go: "go = (\<not> chunk_stops c)"
    by simp
  from r chunk_tsn [of ext wu client sctpPacket c p]
  have t1: "WuClient.tsn (mem wu1 p)
     = WuClient.tsn (mem wu p) + (if p = client \<and> chunk_is_dcep_open c then 1 else 0)"
    by simp
  show ?case
  proof (cases "chunk_stops c")
    case True
    then have "\<not> chunk_is_dcep_open c" by (cases c) simp_all
    with True r go t1 show ?thesis by simp
  next
    case False
    with r go Cons.IH [of wu1] t1 show ?thesis by simp
  qed
qed

lemma SendData_tsn:
  "WuClient.tsn (mem (snd (WuSendData ext wu client payload proto)) p)
     = WuClient.tsn (mem wu p)
       + (if p = client \<and> state (mem wu client) = WuClient_DataChannelOpen then 1 else 0)"
  by (cases "state (mem wu client)")
     (simp_all add: WuSendData_def Let_def WuSendSctp_def TLSSend_mem client_update_def)

lemma SendData_writes:
  "state (mem wu client) = WuClient_DataChannelOpen \<Longrightarrow> sslInitFinished (mem wu client) \<Longrightarrow>
   new_writes wu (snd (WuSendData ext wu client payload proto))
     = pending_writes wu client @
       [sctp_write client
          \<lparr>sourcePort = Wu.port wu, destionationPort = remoteSctpPort (mem wu client),
           verificationTag = sctpVerificationTag (mem wu client)\<rparr>
          (Sctp_Data (kSctpFlagCompleteUnreliable ext)
             (SctpDataChunkLength ext (length payload))
             \<lparr>SctpDataChunk.tsn = WuClient.tsn (mem wu client), streamId = 0, streamSeq = 0,
              protoId = proto, userData = payload\<rparr>)]"
  by (simp add: WuSendData_def Let_def WuSendSctp_def TLSSend_udpOut client_update_def
        send_allowed_def new_writes_def pending_writes_def sctp_write_def)

lemma Remove_tsn:
  "WuClient.tsn (mem (WuRemoveClient ext wu client) p) = WuClient.tsn (mem wu p)"
  by (simp add: WuRemoveClient_def WuSendSctpShutdown_def WuSendSctp_def TLSSend_mem
        client_update_def WuClientFinish_def Let_def split: option.split)

lemma Exchange_tsn:
  "(sdp_client (fst (WuExchangeSDP ext wu offer)) = Some c \<longrightarrow>
      WuClient.tsn (mem (snd (WuExchangeSDP ext wu offer)) c) = 1)
   \<and> (sdp_client (fst (WuExchangeSDP ext wu offer)) \<noteq> Some p \<longrightarrow>
      WuClient.tsn (mem (snd (WuExchangeSDP ext wu offer)) p) = WuClient.tsn (mem wu p))"
  by (auto simp add: WuExchangeSDP_def WuNewClient_def WuPoolAcquire_def client_update_def
        WuClientStart_def Let_def split: option.split list.split prod.split)

lemma Data_open_writes:
  "is_dcep_open d \<Longrightarrow> sslInitFinished (mem wu client) \<Longrightarrow>
   new_writes wu (WuHandleSctp_Data ext wu client sctpPacket d)
     = pending_writes wu client @
       [sctp_write client (reply_header sctpPacket (sctpVerificationTag (mem wu client)))
          (dcep_ack_chunk ext (WuClient.tsn (mem wu client)) (streamId d)),
        sctp_write client (reply_header sctpPacket (sctpVerificationTag (mem wu client)))
          (sack_chunk ext (max (remoteTsn (mem wu client)) (SctpDataChunk.tsn d)))]"
  by (simp add: WuHandleSctp_Data_def Let_def WuSendSctp_def TLSSend_udpOut TLSSend_mem
        Open_udpOut Open_mem is_dcep_open_def Max_u32_max
        client_update_def send_allowed_def pending_writes_def sctp_write_def sack_chunk_def
        new_writes_def reply_header_def)

lemma Update_tsn:
  "WuClient.tsn (mem (snd (snd (WuUpdate ext wu t))) p) = WuClient.tsn (mem wu p)"
  by (simp add: WuUpdate_def Let_def WuPurgeDeadClients_frame WuUpdateClients_state
        split: option.split)

lemma ex_offer_ok_parse: "ParseSdp ex_offer_ok = Some \<lparr>ufrag = ''abcd'', password = ''efgh''\<rparr>"
  by (simp add: ParseSdp_def ex_offer_ok_def sdp_lines_def strip_cr_def starts_with_def)

lemma chunk_arena:
  "arena (snd (WuHandleSctp_chunk ext wu client sctpPacket chunk)) = arena wu"
  by (cases chunk)
     (simp_all add: WuHandleSctp_Data_def WuHandleSctp_Open_def WuHandleSctp_Init_def
        WuHandleSctp_CookieEcho_def WuHandleSctp_Heartbeat_def WuHandleSctp_Sack_def
        WuSendSctp_def TLSSend_other WuPushEvent_def client_update_def Let_def)

lemma chunks_arena:
  "arena (WuHandleSctp_chunks ext wu client sctpPacket chunks) = arena wu"
proof (induction chunks arbitrary: wu)
  case Nil
  then show ?case by simp
next
  case (Cons c cs)
  obtain go wu1 where r: "WuHandleSctp_chunk ext wu client sctpPacket c = (go, wu1)"
    by (cases "WuHandleSctp_chunk ext wu client sctpPacket c")
  with chunk_arena [of ext wu client sctpPacket c] have "arena wu1 = arena wu" by simp
  with r Cons.IH [of wu1] show ?case by (cases go) simp_all
qed

lemma HandleSctp_arena: "arena (WuHandleSctp ext wu client buf) = arena wu"
  by (simp add: WuHandleSctp_def chunks_arena split: option.split prod.split)

lemma HandleSctp_tsn:
  "WuClient.tsn (mem (WuHandleSctp ext wu client buf) p)
     = WuClient.tsn (mem wu p) + (if p = client then of_nat (opens_in_packet ext buf) else 0)"
  by (simp add: WuHandleSctp_def opens_in_packet_def chunks_tsn split: option.split prod.split)

lemma Receive_records_tsn:
  "WuReceive_records ext wu client bufs = Some done \<Longrightarrow>
   WuClient.tsn (mem done p)
     = WuClient.tsn (mem wu p) + (if p = client then of_nat (opens_in_records ext bufs) else 0)"
proof (induction bufs arbitrary: wu)
  case Nil
  then show ?case by simp
next
  case (Cons buf rest)
  show ?case
  proof (cases "length buf > 0")
    case False
    with Cons.prems have "WuReceive_records ext wu client rest = Some done" by simp
    from Cons.IH [OF this] False show ?thesis by simp
  next
    case True
    with Cons.prems obtain a where a: "WuArenaAcquire (arena wu) (length buf) = Some a"
      and r: "WuReceive_records ext (WuHandleSctp ext (wu\<lparr>arena := a\<rparr>) client buf) client rest
                = Some done"
      by (auto split: option.splits)
    from Cons.IH [OF r] True show ?thesis
      by (simp add: HandleSctp_tsn)
  qed
qed

lemma ReceiveDTLS_tsn:
  "WuReceiveDTLSPacket ext wu data addr = Some done \<Longrightarrow>
   WuClient.tsn (mem done p)
     = WuClient.tsn (mem wu p)
       + (if WuFindClient wu addr = Some p \<and> sslInitFinished (mem wu p)
          then of_nat (opens_in_records ext (SSL_read ext p data)) else 0)"
proof (cases "WuFindClient wu addr")
  case None
  assume "WuReceiveDTLSPacket ext wu data addr = Some done"
  with None show ?thesis by (simp add: WuReceiveDTLSPacket_def)
next
  case (Some client)
  assume r: "WuReceiveDTLSPacket ext wu data addr = Some done"
  show ?thesis
  proof (cases "sslInitFinished (mem wu client)")
    case False
    with r Some show ?thesis
      by (auto simp add: WuReceiveDTLSPacket_def Let_def WuClientSendPendingDTLS_def
            client_update_def split: if_splits)
  next
    case True
    with r Some have "WuReceive_records ext (WuClientSendPendingDTLS wu client) client
                        (SSL_read ext client data) = Some done"
      by (simp add: WuReceiveDTLSPacket_def)
    from Receive_records_tsn [OF this, of p] Some True show ?thesis
      by (auto simp add: WuClientSendPendingDTLS_def client_update_def)
  qed
qed

lemma HandleUDP_tsn:
  "WuHandleUDP ext wu remote data = Some done \<Longrightarrow>
   WuClient.tsn (mem done p)
     = WuClient.tsn (mem wu p) + of_nat (opens_in_datagram ext wu remote data p)"
proof (cases "ParseStun ext data")
  case None
  assume "WuHandleUDP ext wu remote data = Some done"
  with None have "WuReceiveDTLSPacket ext wu data remote = Some done"
    by (simp add: WuHandleUDP_def)
  from ReceiveDTLS_tsn [OF this, of p] None show ?thesis
    by (simp add: opens_in_datagram_def)
next
  case (Some packet)
  assume "WuHandleUDP ext wu remote data = Some done"
  with Some have "done = WuHandleStun ext wu packet remote" by (simp add: WuHandleUDP_def)
  with Some show ?thesis by (simp add: opens_in_datagram_def WuHandleStun_creds)
qed

text \<open>
  Claim C9 as stated fails: \<open>tsn\<close> is an unsigned 32-bit counter, and a send at
  \<open>tsn = 0xFFFFFFFF\<close> succeeds and leaves \<open>tsn = 0\<close>, which is smaller than before.
\<close>

theorem tsn_wraps_to_zero_after_maximum:
  "fst (WuSendText ex_ext (ex_wu WuClient_DataChannelOpen 0xFFFFFFFF 8) 0 [104]) = 0
   \<and> WuClient.tsn (mem (ex_wu WuClient_DataChannelOpen 0xFFFFFFFF 8) 0) = 0xFFFFFFFF
   \<and> WuClient.tsn (mem (snd (WuSendText ex_ext (ex_wu WuClient_DataChannelOpen 0xFFFFFFFF 8) 0
                                [104])) 0) = 0
   \<and> WuClient.tsn (mem (snd (WuSendText ex_ext (ex_wu WuClient_DataChannelOpen 0xFFFFFFFF 8) 0
                                [104])) 0)
       < WuClient.tsn (mem (ex_wu WuClient_DataChannelOpen 0xFFFFFFFF 8) 0)"
  by (simp add: model_defs example_defs)

text \<open>
  Claim C9, amended. The client's \<open>tsn\<close> moves only when a DATA chunk is built, and
  then by exactly one modulo \<open>2^32\<close>. \<open>WuSendText\<close> and \<open>WuSendBinary\<close> are
  \<open>WuSendData\<close>, which on an open data channel puts the current \<open>tsn\<close> in the chunk
  it writes and adds one to it, and otherwise leaves it. Processing a chunk adds one to
  the \<open>tsn\<close> of the client it is processed for when the chunk is a DCEP OPEN (whose ACK
  carries the \<open>tsn\<close> from before) and leaves it for every other chunk; so a packet, the
  records of a datagram, and a datagram handed to \<open>WuHandleUDP\<close> add the number of DCEP
  OPENs that the handler processes for the client the datagram belongs to, and add
  nothing for any other client. STUN handling, \<open>WuUpdate\<close> and \<open>WuRemoveClient\<close> leave
  the \<open>tsn\<close> of every slot as it is; \<open>WuExchangeSDP\<close> starts the slot it allocates at 1
  and leaves the other slots. Adding one is a strict increase except at \<open>0xFFFFFFFF\<close>.
\<close>

theorem tsn_moves_only_by_one_per_data_chunk:
  "WuSendText ext wu client payload = WuSendData ext wu client payload DCProto_String
   \<and> WuSendBinary ext wu client payload = WuSendData ext wu client payload DCProto_Binary
   \<and> WuClient.tsn (mem (snd (WuSendData ext wu client payload proto)) p)
       = WuClient.tsn (mem wu p)
         + (if p = client \<and> state (mem wu client) = WuClient_DataChannelOpen then 1 else 0)
   \<and> (state (mem wu client) = WuClient_DataChannelOpen \<and> sslInitFinished (mem wu client) \<longrightarrow>
        new_writes wu (snd (WuSendData ext wu client payload proto))
          = pending_writes wu client @
            [sctp_write client
               \<lparr>sourcePort = Wu.port wu, destionationPort = remoteSctpPort (mem wu client),
                verificationTag = sctpVerificationTag (mem wu client)\<rparr>
               (Sctp_Data (kSctpFlagCompleteUnreliable ext)
                  (SctpDataChunkLength ext (length payload))
                  \<lparr>SctpDataChunk.tsn = WuClient.tsn (mem wu client), streamId = 0,
                   streamSeq = 0, protoId = proto, userData = payload\<rparr>)])
   \<and> WuClient.tsn (mem (snd (WuHandleSctp_chunk ext wu client sctpPacket chunk)) p)
       = WuClient.tsn (mem wu p) + (if p = client \<and> chunk_is_dcep_open chunk then 1 else 0)
   \<and> (is_dcep_open d \<and> sslInitFinished (mem wu client) \<longrightarrow>
        new_writes wu (snd (WuHandleSctp_chunk ext wu client sctpPacket (Sctp_Data f l d)))
          = pending_writes wu client @
            [sctp_write client (reply_header sctpPacket (sctpVerificationTag (mem wu client)))
               (dcep_ack_chunk ext (WuClient.tsn (mem wu client)) (streamId d)),
             sctp_write client (reply_header sctpPacket (sctpVerificationTag (mem wu client)))
               (sack_chunk ext (max (remoteTsn (mem wu client)) (SctpDataChunk.tsn d)))])
   \<and> WuClient.tsn (mem (WuHandleSctp_chunks ext wu client sctpPacket chunks) p)
       = WuClient.tsn (mem wu p) + (if p = client then of_nat (opens_processed chunks) else 0)
   \<and> WuClient.tsn (mem (WuHandleStun ext wu packet remote) p) = WuClient.tsn (mem wu p)
   \<and> WuClient.tsn (mem (snd (snd (WuUpdate ext wu t))) p) = WuClient.tsn (mem wu p)
   \<and> WuClient.tsn (mem (WuRemoveClient ext wu client) p) = WuClient.tsn (mem wu p)
   \<and> (sdp_client (fst (WuExchangeSDP ext wu offer)) = Some c \<longrightarrow>
        WuClient.tsn (mem (snd (WuExchangeSDP ext wu offer)) c) = 1)
   \<and> (sdp_client (fst (WuExchangeSDP ext wu offer)) \<noteq> Some p \<longrightarrow>
        WuClient.tsn (mem (snd (WuExchangeSDP ext wu offer)) p) = WuClient.tsn (mem wu p))
   \<and> WuClient.tsn (mem (WuHandleSctp ext wu client buf) p)
       = WuClient.tsn (mem wu p) + (if p = client then of_nat (opens_in_packet ext buf) else 0)
   \<and> (WuReceive_records ext wu client bufs = Some after_records \<longrightarrow>
        WuClient.tsn (mem after_records p)
          = WuClient.tsn (mem wu p)
            + (if p = client then of_nat (opens_in_records ext bufs) else 0))
   \<and> (WuReceiveDTLSPacket ext wu data remote = Some after_dtls \<longrightarrow>
        WuClient.tsn (mem after_dtls p)
          = WuClient.tsn (mem wu p)
            + (if WuFindClient wu remote = Some p \<and> sslInitFinished (mem wu p)
               then of_nat (opens_in_records ext (SSL_read ext p data)) else 0))
   \<and> (WuHandleUDP ext wu remote data = Some after_udp \<longrightarrow>
        WuClient.tsn (mem after_udp p)
          = WuClient.tsn (mem wu p) + of_nat (opens_in_datagram ext wu remote data p))
   \<and> (WuClient.tsn (mem wu client) \<noteq> 0xFFFFFFFF \<longrightarrow>
        WuClient.tsn (mem wu client) < WuClient.tsn (mem wu client) + 1)"
proof -
  have wr: "WuSendText ext wu client payload = WuSendData ext wu client payload DCProto_String"
    "WuSendBinary ext wu client payload = WuSendData ext wu client payload DCProto_Binary"
    by (simp_all add: WuSendText_def WuSendBinary_def)
  have op: "new_writes wu (snd (WuHandleSctp_chunk ext wu client sctpPacket (Sctp_Data f l d)))
          = pending_writes wu client @
            [sctp_write client (reply_header sctpPacket (sctpVerificationTag (mem wu client)))
               (dcep_ack_chunk ext (WuClient.tsn (mem wu client)) (streamId d)),
             sctp_write client (reply_header sctpPacket (sctpVerificationTag (mem wu client)))
               (sack_chunk ext (max (remoteTsn (mem wu client)) (SctpDataChunk.tsn d)))]"
    if "is_dcep_open d" "sslInitFinished (mem wu client)"
    using Data_open_writes [OF that] by simp
  from wr SendData_tsn [of ext wu client payload proto p]
    SendData_writes [of wu client ext payload proto]
    chunk_tsn [of ext wu client sctpPacket chunk p] op
    chunks_tsn [of ext wu client sctpPacket chunks p]
    WuHandleStun_creds(4) [of ext wu packet remote p]
    Update_tsn [of ext wu t p] Remove_tsn [of ext wu client p]
    Exchange_tsn [of ext wu offer c p]
    HandleSctp_tsn [of ext wu client buf p]
    Receive_records_tsn [of ext wu client bufs after_records p]
    ReceiveDTLS_tsn [of ext wu data remote after_dtls p]
    HandleUDP_tsn [of ext wu remote data after_udp p]
    tsn_step_increases [of "WuClient.tsn (mem wu client)"]
  show ?thesis by blast
qed

theorem tsn_moves_only_by_one_per_data_chunk_witness:
  "state (mem (ex_wu WuClient_DataChannelOpen 41 8) 0) = WuClient_DataChannelOpen
   \<and> sslInitFinished (mem (ex_wu WuClient_DataChannelOpen 41 8) 0)
   \<and> WuClient.tsn (mem (snd (WuSendData ex_ext (ex_wu WuClient_DataChannelOpen 41 8) 0 [104]
                                DCProto_String)) 0) = 42
   \<and> new_writes (ex_wu WuClient_DataChannelOpen 41 8)
         (snd (WuSendData ex_ext (ex_wu WuClient_DataChannelOpen 41 8) 0 [104] DCProto_String))
       = [sctp_write 0 \<lparr>sourcePort = 9555, destionationPort = 5000, verificationTag = 0x11\<rparr>
            (Sctp_Data 7 17
               \<lparr>SctpDataChunk.tsn = 41, streamId = 0, streamSeq = 0,
                protoId = DCProto_String, userData = [104]\<rparr>)]
   \<and> is_dcep_open \<lparr>SctpDataChunk.tsn = 1005, streamId = 1, streamSeq = 0, protoId = 53,
                      userData = [3]\<rparr>
   \<and> WuClient.tsn (mem (snd (WuHandleSctp_chunk ex_ext (ex_wu WuClient_DataChannelOpen 41 8) 0
                                ex_packet
                                (Sctp_Data 7 17
                                   \<lparr>SctpDataChunk.tsn = 1005, streamId = 1, streamSeq = 0,
                                    protoId = 53, userData = [3]\<rparr>))) 0) = 42
   \<and> sdp_client (fst (WuExchangeSDP ex_ext (ex_wu WuClient_DataChannelOpen 41 8) ex_offer_ok))
       = Some 1
   \<and> WuClient.tsn (mem (snd (WuExchangeSDP ex_ext (ex_wu WuClient_DataChannelOpen 41 8)
                                ex_offer_ok)) 1) = 1
   \<and> WuClient.tsn (mem (snd (WuExchangeSDP ex_ext (ex_wu WuClient_DataChannelOpen 41 8)
                                ex_offer_ok)) 0) = 41
   \<and> WuClient.tsn (mem (ex_wu WuClient_DataChannelOpen 41 8) 0) \<noteq> 0xFFFFFFFF
   \<and> WuClient.tsn (mem (ex_wu WuClient_DataChannelOpen 41 8) 0)
       < WuClient.tsn (mem (ex_wu WuClient_DataChannelOpen 41 8) 0) + 1
   \<and> WuHandleUDP ex_ext_dtls (ex_wu WuClient_DataChannelOpen 41 8)
         \<lparr>host = 0x0A000001, port = 5000\<rparr> [1, 2] \<noteq> None
   \<and> opens_in_datagram ex_ext_dtls (ex_wu WuClient_DataChannelOpen 41 8)
         \<lparr>host = 0x0A000001, port = 5000\<rparr> [1, 2] 0 = 1
   \<and> WuClient.tsn
         (mem (the (WuHandleUDP ex_ext_dtls (ex_wu WuClient_DataChannelOpen 41 8)
                      \<lparr>host = 0x0A000001, port = 5000\<rparr> [1, 2])) 0) = 42
   \<and> WuReceiveDTLSPacket ex_ext_dtls (ex_wu WuClient_DataChannelOpen 41 8) [1, 2]
         \<lparr>host = 0x0A000001, port = 5000\<rparr> \<noteq> None
   \<and> WuClient.tsn
         (mem (the (WuReceiveDTLSPacket ex_ext_dtls (ex_wu WuClient_DataChannelOpen 41 8) [1, 2]
                      \<lparr>host = 0x0A000001, port = 5000\<rparr>)) 0) = 42
   \<and> WuReceive_records ex_ext_dtls (ex_wu WuClient_DataChannelOpen 41 8) 0 [[1, 2], [], [3]]
       \<noteq> None
   \<and> WuClient.tsn
         (mem (the (WuReceive_records ex_ext_dtls (ex_wu WuClient_DataChannelOpen 41 8) 0
                      [[1, 2], [], [3]])) 0) = 43
   \<and> WuClient.tsn (mem (WuHandleSctp ex_ext_dtls (ex_wu WuClient_DataChannelOpen 41 8) 0 [1]) 0)
       = 42"
proof -
  let ?W = "ex_wu WuClient_DataChannelOpen 41 8"
  let ?A = "\<lparr>host = 0x0A000001, port = 5000\<rparr> :: WuAddress"
  have pk: "opens_in_packet ex_ext_dtls buf = 1" for buf
    by (simp add: opens_in_packet_def ex_ext_dtls_def ex_data_def maxChunks_def is_dcep_open_def
          DCProto_Control_def DCMessage_Open_def ParseDataChannelControlPacket_def)
  have found: "WuFindClient ?W ?A = Some 0" "sslInitFinished (mem ?W 0)"
    "ParseStun ex_ext_dtls [1, 2] = None" "SSL_read ex_ext_dtls 0 [1, 2] = [[1, 2]]"
    by (simp_all add: WuFindClient_def ex_ext_dtls_def example_defs)
  have od: "opens_in_datagram ex_ext_dtls ?W ?A [1, 2] 0 = 1"
    by (simp add: opens_in_datagram_def found pk)
  have rec: "WuReceive_records ex_ext_dtls w 0 [[1, 2], [], [3]] \<noteq> None"
    if "arenaUsed (arena w) = 0" "arenaCapacity (arena w) = 1048576" for w
    using that by (simp add: WuArenaAcquire_def HandleSctp_arena)
  have rec1: "WuReceive_records ex_ext_dtls w 0 [[1, 2]] \<noteq> None"
    if "arenaUsed (arena w) = 0" "arenaCapacity (arena w) = 1048576" for w
    using that by (simp add: WuArenaAcquire_def)
  have rr: "WuReceive_records ex_ext_dtls ?W 0 [[1, 2], [], [3]] \<noteq> None"
    by (rule rec) (simp_all add: ex_wu_def)
  have dt: "WuReceiveDTLSPacket ex_ext_dtls ?W [1, 2] ?A \<noteq> None"
  proof -
    have "WuReceiveDTLSPacket ex_ext_dtls ?W [1, 2] ?A
            = WuReceive_records ex_ext_dtls (WuClientSendPendingDTLS ?W 0) 0 [[1, 2]]"
      using found by (simp add: WuReceiveDTLSPacket_def)
    moreover have "WuReceive_records ex_ext_dtls (WuClientSendPendingDTLS ?W 0) 0 [[1, 2]]
                     \<noteq> None"
      by (rule rec1) (simp_all add: WuClientSendPendingDTLS_def client_update_def ex_wu_def)
    ultimately show ?thesis by simp
  qed
  have ud: "WuHandleUDP ex_ext_dtls ?W ?A [1, 2] \<noteq> None"
    using dt found by (simp add: WuHandleUDP_def)
  have ors: "opens_in_records ex_ext_dtls [[1, 2], [], [3]] = 2"
    "opens_in_records ex_ext_dtls [[1, 2]] = 1"
    by (simp_all add: pk)

  have sdp: "sdp_client (fst (WuExchangeSDP ex_ext (ex_wu WuClient_DataChannelOpen 41 8)
                                ex_offer_ok)) = Some 1"
    by (simp add: WuExchangeSDP_def ex_offer_ok_parse WuNewClient_def WuPoolAcquire_def
          Let_def ex_wu_def ex_ext_def split: prod.split)
  have hyp: "state (mem (ex_wu WuClient_DataChannelOpen 41 8) 0) = WuClient_DataChannelOpen"
    "sslInitFinished (mem (ex_wu WuClient_DataChannelOpen 41 8) 0)"
    "is_dcep_open \<lparr>SctpDataChunk.tsn = 1005, streamId = 1, streamSeq = 0, protoId = 53,
                      userData = [3]\<rparr>"
    "WuClient.tsn (mem (ex_wu WuClient_DataChannelOpen 41 8) 0) \<noteq> 0xFFFFFFFF"
    "WuClient.tsn (mem (ex_wu WuClient_DataChannelOpen 41 8) 0) = 41"
    "pending_writes (ex_wu WuClient_DataChannelOpen 41 8) 0 = []"
    "Wu.port (ex_wu WuClient_DataChannelOpen 41 8) = 9555"
    "remoteSctpPort (mem (ex_wu WuClient_DataChannelOpen 41 8) 0) = 5000"
    "sctpVerificationTag (mem (ex_wu WuClient_DataChannelOpen 41 8) 0) = 0x11"
    "kSctpFlagCompleteUnreliable ex_ext = 7"
    "SctpDataChunkLength ex_ext (length [104 :: u8]) = 17"
    by (simp_all add: ex_wu_def ex_client_def ex_ext_def is_dcep_open_def DCProto_Control_def
          DCMessage_Open_def ParseDataChannelControlPacket_def pending_writes_def)
  from tsn_moves_only_by_one_per_data_chunk [where ext = ex_ext and wu = "ex_wu WuClient_DataChannelOpen 41 8" and client = 0
             and p = 0 and payload = "[104]" and proto = DCProto_String
             and sctpPacket = ex_packet and f = 7 and l = 17
             and d = "\<lparr>SctpDataChunk.tsn = 1005, streamId = 1, streamSeq = 0, protoId = 53,
                       userData = [3]\<rparr>"
             and chunk = "Sctp_Data 7 17
                            \<lparr>SctpDataChunk.tsn = 1005, streamId = 1, streamSeq = 0,
                             protoId = 53, userData = [3]\<rparr>"
             and offer = ex_offer_ok and c = 1]
       sdp hyp
  have part1:
    "state (mem ?W 0) = WuClient_DataChannelOpen
     \<and> sslInitFinished (mem ?W 0)
     \<and> WuClient.tsn (mem (snd (WuSendData ex_ext ?W 0 [104] DCProto_String)) 0) = 42
     \<and> new_writes ?W (snd (WuSendData ex_ext ?W 0 [104] DCProto_String))
         = [sctp_write 0 \<lparr>sourcePort = 9555, destionationPort = 5000, verificationTag = 0x11\<rparr>
              (Sctp_Data 7 17
                 \<lparr>SctpDataChunk.tsn = 41, streamId = 0, streamSeq = 0,
                  protoId = DCProto_String, userData = [104]\<rparr>)]
     \<and> is_dcep_open \<lparr>SctpDataChunk.tsn = 1005, streamId = 1, streamSeq = 0, protoId = 53,
                        userData = [3]\<rparr>
     \<and> WuClient.tsn (mem (snd (WuHandleSctp_chunk ex_ext ?W 0 ex_packet
                                  (Sctp_Data 7 17
                                     \<lparr>SctpDataChunk.tsn = 1005, streamId = 1, streamSeq = 0,
                                      protoId = 53, userData = [3]\<rparr>))) 0) = 42
     \<and> sdp_client (fst (WuExchangeSDP ex_ext ?W ex_offer_ok)) = Some 1
     \<and> WuClient.tsn (mem (snd (WuExchangeSDP ex_ext ?W ex_offer_ok)) 1) = 1
     \<and> WuClient.tsn (mem (snd (WuExchangeSDP ex_ext ?W ex_offer_ok)) 0) = 41
     \<and> WuClient.tsn (mem ?W 0) \<noteq> 0xFFFFFFFF
     \<and> WuClient.tsn (mem ?W 0) < WuClient.tsn (mem ?W 0) + 1"
    by simp
  have e1: "WuHandleUDP ex_ext_dtls ?W ?A [1, 2]
              = Some (the (WuHandleUDP ex_ext_dtls ?W ?A [1, 2]))"
    using ud by simp
  have e2: "WuReceiveDTLSPacket ex_ext_dtls ?W [1, 2] ?A
              = Some (the (WuReceiveDTLSPacket ex_ext_dtls ?W [1, 2] ?A))"
    using dt by simp
  have e3: "WuReceive_records ex_ext_dtls ?W 0 [[1, 2], [], [3]]
              = Some (the (WuReceive_records ex_ext_dtls ?W 0 [[1, 2], [], [3]]))"
    using rr by simp
  note T = tsn_moves_only_by_one_per_data_chunk
             [where ext = ex_ext_dtls and wu = ?W and client = 0 and p = 0 and remote = ?A
                and data = "[1, 2]" and buf = "[1]" and bufs = "[[1, 2], [], [3]]"
                and after_udp = "the (WuHandleUDP ex_ext_dtls ?W ?A [1, 2])"
                and after_dtls = "the (WuReceiveDTLSPacket ex_ext_dtls ?W [1, 2] ?A)"
                and after_records = "the (WuReceive_records ex_ext_dtls ?W 0 [[1, 2], [], [3]])"]
  from T e1 have u: "WuClient.tsn (mem (the (WuHandleUDP ex_ext_dtls ?W ?A [1, 2])) 0)
      = WuClient.tsn (mem ?W 0) + of_nat (opens_in_datagram ex_ext_dtls ?W ?A [1, 2] 0)"
    by blast
  from T e2 have v: "WuClient.tsn (mem (the (WuReceiveDTLSPacket ex_ext_dtls ?W [1, 2] ?A)) 0)
      = WuClient.tsn (mem ?W 0)
        + (if WuFindClient ?W ?A = Some 0 \<and> sslInitFinished (mem ?W 0)
           then of_nat (opens_in_records ex_ext_dtls (SSL_read ex_ext_dtls 0 [1, 2])) else 0)"
    by blast
  from T e3 have w: "WuClient.tsn (mem (the (WuReceive_records ex_ext_dtls ?W 0 [[1, 2], [], [3]])) 0)
      = WuClient.tsn (mem ?W 0)
        + (if (0::nat) = 0 then of_nat (opens_in_records ex_ext_dtls [[1, 2], [], [3]]) else 0)"
    by blast
  from T have x: "WuClient.tsn (mem (WuHandleSctp ex_ext_dtls ?W 0 [1]) 0)
      = WuClient.tsn (mem ?W 0) + (if (0::nat) = 0 then of_nat (opens_in_packet ex_ext_dtls [1]) else 0)"
    by blast
  have t41: "WuClient.tsn (mem ?W 0) = 41" by (simp add: ex_wu_def ex_client_def)
  from part1 ud dt rr od u v w x show ?thesis
    by (simp add: t41 found ors pk od)
qed

end
